theory Spec2Isabelle
  imports Main "HOL-Library.AList"
begin

section \<open>JavaScript values and canonical schema nodes\<close>

text \<open>
  Literal JavaScript values that the converters copy into the output without looking
  inside them (\<open>const\<close>, \<open>enum\<close>, \<open>default\<close>, the numbers of length and range checks).
  A property that is absent reads as \<open>JUndefined\<close>, as it does in JavaScript. Numbers
  are only ever copied or produced by \<open>Array.length\<close>, never computed with, so the
  integers stand for them.
\<close>

datatype jsval =
    JUndefined
  | JNull
  | JBool bool
  | JNum int
  | JStr string
  | JArr "jsval list"
  | JObj "(string \<times> jsval) list"

text \<open>
  A \<open>SchemaObject\<close> is a plain object: its own properties in insertion order. The value
  of a property is a literal, one sub-schema (\<open>items\<close>, \<open>not\<close>, \<open>additionalProperties\<close>),
  a sequence of sub-schemas (\<open>anyOf\<close>, \<open>allOf\<close>, \<open>prefixItems\<close>) or the name-to-schema
  record of \<open>properties\<close>.
\<close>

datatype fval =
    VLit jsval
  | VNode "(string \<times> fval) list"
  | VNodes "(string \<times> fval) list list"
  | VProps "(string \<times> (string \<times> fval) list) list"

type_synonym node = "(string \<times> fval) list"

abbreviation vstr :: "string \<Rightarrow> fval" where
  "vstr s \<equiv> VLit (JStr s)"

abbreviation vbool :: "bool \<Rightarrow> fval" where
  "vbool b \<equiv> VLit (JBool b)"

text \<open>
  \<open>obj.k = v\<close> is \<open>AList.update k v obj\<close>: an existing key keeps its place, a new key
  goes to the end. The object spread \<open>{...a, ...b}\<close> copies \<open>a\<close> and then assigns the
  properties of \<open>b\<close> in their order.
\<close>

definition spread :: "node \<Rightarrow> node \<Rightarrow> node" where
  "spread a b = fold (\<lambda>(k, v). AList.update k v) b a"

text \<open>The errors a converter can raise: a \<open>TypeError\<close> (reading a property of
  \<open>undefined\<close>, calling a member that is not a function), and whatever a function of the
  schema throws when the converter calls it.\<close>

datatype error = TypeError | Thrown

text \<open>\<open>Required<ZodToOpenAPIOptions>\<close> and \<open>Required<JoiToOpenAPIOptions>\<close>: the same three fields.\<close>

record opts =
  includeDescriptions :: bool
  includeDefaults :: bool
  maxDepth :: int

text \<open>The options as the caller passes them, every field optional.\<close>

record options =
  opt_includeDescriptions :: "bool option"
  opt_includeDefaults :: "bool option"
  opt_maxDepth :: "int option"

definition resolveOptions :: "options \<Rightarrow> opts" where
  "resolveOptions options =
     \<lparr> includeDescriptions = (case opt_includeDescriptions options of None \<Rightarrow> True | Some b \<Rightarrow> b),
       includeDefaults = (case opt_includeDefaults options of None \<Rightarrow> True | Some b \<Rightarrow> b),
       maxDepth = (case opt_maxDepth options of None \<Rightarrow> 20 | Some d \<Rightarrow> d) \<rparr>"

definition noOptions :: options where
  "noOptions = \<lparr> opt_includeDescriptions = None, opt_includeDefaults = None, opt_maxDepth = None \<rparr>"

definition orEmpty :: "'a list option \<Rightarrow> 'a list" where
  "orEmpty xs = (case xs of None \<Rightarrow> [] | Some ys \<Rightarrow> ys)"


section \<open>Dialect A: the Zod definition tree (src/adapters/zod.ts)\<close>

text \<open>One entry of \<open>_def.checks\<close>. \<open>check_regex\<close> is the \<open>source\<close> of the \<open>RegExp\<close>, when
  the check has one.\<close>

datatype zcheck = ZodCheck
  (check_kind: string)
  (check_value: jsval)
  (check_regex: "string option")
  (check_inclusive: bool)

text \<open>
  A Zod schema value, seen through the members of \<open>_def\<close> that the adapter reads. Every
  member is optional, as the adapter reads each through \<open>schema._def?.member\<close>; a schema
  without \<open>_def\<close> is the one with every member absent. \<open>def_shape\<close> is the result of
  \<open>_def.shape()\<close> as \<open>Object.entries\<close> lists it, and the three length members hold the
  \<open>value\<close> of \<open>_def.minLength\<close>, \<open>_def.maxLength\<close> and \<open>_def.exactLength\<close>.
  \<open>def_defaultValue\<close> is the outcome of the call \<open>_def.defaultValue?.()\<close>: the value returned
  (\<open>undefined\<close> when the member is absent), \<open>Thrown\<close> when the function throws, and
  \<open>TypeError\<close> when the member is neither absent nor a function. The converter makes this
  call only at the two places below, so a schema whose call raises converts without error
  wherever the call is not reached.
  A schema is a finite tree here; a cyclic object graph is outside the model.
\<close>

datatype zod = ZodType
  (def_typeName: "string option")
  (def_description: "string option")
  (def_checks: "zcheck list option")
  (def_value: jsval)
  (def_values: jsval)
  (def_shape: "(string \<times> zod) list option")
  (def_unknownKeys: "string option")
  (def_catchall: "zod option")
  (def_type: "zod option")
  (def_minLength: jsval)
  (def_maxLength: jsval)
  (def_exactLength: jsval)
  (def_items: "zod list option")
  (def_rest: "zod option")
  (def_options: "zod list option")
  (def_left: "zod option")
  (def_right: "zod option")
  (def_innerType: "zod option")
  (def_defaultValue: "error + jsval")
  (def_valueType: "zod option")
  (def_in: "zod option")
  (def_schema: "zod option")

text \<open>\<open>schema._def?.typeName ?? ''\<close>\<close>

definition typeNameOf :: "zod \<Rightarrow> string" where
  "typeNameOf schema = (case def_typeName schema of None \<Rightarrow> [] | Some t \<Rightarrow> t)"

subsection \<open>Building schema values\<close>

text \<open>A schema with a type tag and nothing else, and the assignment of single members;
  they build the concrete inputs of the examples below.\<close>

definition zodBare :: "string \<Rightarrow> zod" where
  "zodBare tn = ZodType (Some tn) None None JUndefined JUndefined None None None None
     JUndefined JUndefined JUndefined None None None None None None (Inr JUndefined) None None None"

fun withDescription :: "string \<Rightarrow> zod \<Rightarrow> zod" where
  "withDescription d (ZodType a1 a2 a3 a4 a5 a6 a7 a8 a9 a10 a11 a12 a13 a14 a15 a16 a17 a18 a19 a20 a21 a22) =
     ZodType a1 (Some d) a3 a4 a5 a6 a7 a8 a9 a10 a11 a12 a13 a14 a15 a16 a17 a18 a19 a20 a21 a22"

fun withChecks :: "zcheck list \<Rightarrow> zod \<Rightarrow> zod" where
  "withChecks cs (ZodType a1 a2 a3 a4 a5 a6 a7 a8 a9 a10 a11 a12 a13 a14 a15 a16 a17 a18 a19 a20 a21 a22) =
     ZodType a1 a2 (Some cs) a4 a5 a6 a7 a8 a9 a10 a11 a12 a13 a14 a15 a16 a17 a18 a19 a20 a21 a22"

fun withShape :: "(string \<times> zod) list \<Rightarrow> zod \<Rightarrow> zod" where
  "withShape sh (ZodType a1 a2 a3 a4 a5 a6 a7 a8 a9 a10 a11 a12 a13 a14 a15 a16 a17 a18 a19 a20 a21 a22) =
     ZodType a1 a2 a3 a4 a5 (Some sh) a7 a8 a9 a10 a11 a12 a13 a14 a15 a16 a17 a18 a19 a20 a21 a22"

fun withType :: "zod \<Rightarrow> zod \<Rightarrow> zod" where
  "withType t (ZodType a1 a2 a3 a4 a5 a6 a7 a8 a9 a10 a11 a12 a13 a14 a15 a16 a17 a18 a19 a20 a21 a22) =
     ZodType a1 a2 a3 a4 a5 a6 a7 a8 (Some t) a10 a11 a12 a13 a14 a15 a16 a17 a18 a19 a20 a21 a22"

fun withItems :: "zod list \<Rightarrow> zod \<Rightarrow> zod" where
  "withItems its (ZodType a1 a2 a3 a4 a5 a6 a7 a8 a9 a10 a11 a12 a13 a14 a15 a16 a17 a18 a19 a20 a21 a22) =
     ZodType a1 a2 a3 a4 a5 a6 a7 a8 a9 a10 a11 a12 (Some its) a14 a15 a16 a17 a18 a19 a20 a21 a22"

fun withRest :: "zod \<Rightarrow> zod \<Rightarrow> zod" where
  "withRest r (ZodType a1 a2 a3 a4 a5 a6 a7 a8 a9 a10 a11 a12 a13 a14 a15 a16 a17 a18 a19 a20 a21 a22) =
     ZodType a1 a2 a3 a4 a5 a6 a7 a8 a9 a10 a11 a12 a13 (Some r) a15 a16 a17 a18 a19 a20 a21 a22"

fun withInnerType :: "zod \<Rightarrow> zod \<Rightarrow> zod" where
  "withInnerType i (ZodType a1 a2 a3 a4 a5 a6 a7 a8 a9 a10 a11 a12 a13 a14 a15 a16 a17 a18 a19 a20 a21 a22) =
     ZodType a1 a2 a3 a4 a5 a6 a7 a8 a9 a10 a11 a12 a13 a14 a15 a16 a17 (Some i) a19 a20 a21 a22"

fun withDefaultValue :: "jsval \<Rightarrow> zod \<Rightarrow> zod" where
  "withDefaultValue v (ZodType a1 a2 a3 a4 a5 a6 a7 a8 a9 a10 a11 a12 a13 a14 a15 a16 a17 a18 a19 a20 a21 a22) =
     ZodType a1 a2 a3 a4 a5 a6 a7 a8 a9 a10 a11 a12 a13 a14 a15 a16 a17 a18 (Inr v) a20 a21 a22"

text \<open>A \<open>defaultValue\<close> function that throws.\<close>

fun withThrowingDefault :: "zod \<Rightarrow> zod" where
  "withThrowingDefault (ZodType a1 a2 a3 a4 a5 a6 a7 a8 a9 a10 a11 a12 a13 a14 a15 a16 a17 a18 a19 a20 a21 a22) =
     ZodType a1 a2 a3 a4 a5 a6 a7 a8 a9 a10 a11 a12 a13 a14 a15 a16 a17 a18 (Inl Thrown) a20 a21 a22"

definition defaultOpts :: opts where
  "defaultOpts = \<lparr> includeDescriptions = True, includeDefaults = True, maxDepth = 20 \<rparr>"


subsection \<open>escapeRegex\<close>

text \<open>\<open>str.replace(/[.*+?^${}()|[\]\\]/g, '\\$&')\<close>: a backslash before each of the
  fourteen special characters.\<close>

definition regexSpecial :: "char \<Rightarrow> bool" where
  "regexSpecial c \<longleftrightarrow> c \<in> set ''.*+?^${}()|[]'' \<or> c = CHR 0x5C"

definition escapeRegex :: "string \<Rightarrow> string" where
  "escapeRegex str = concat (map (\<lambda>c. if regexSpecial c then [CHR 0x5C, c] else [c]) str)"

text \<open>\<open>escapeRegex(check.value as string)\<close>: the cast checks nothing, and \<open>replace\<close> exists
  on strings only.\<close>

definition escapeRegexValue :: "jsval \<Rightarrow> error + string" where
  "escapeRegexValue v = (case v of JStr s \<Rightarrow> Inr (escapeRegex s) | _ \<Rightarrow> Inl TypeError)"

subsection \<open>convertZodString\<close>

text \<open>The four checks that assign \<open>result.pattern\<close>, and what each assigns.\<close>

definition isPatternCheck :: "zcheck \<Rightarrow> bool" where
  "isPatternCheck check \<longleftrightarrow>
     check_kind check \<in> {''regex'', ''startsWith'', ''endsWith'', ''includes''}"

definition checkPattern :: "zcheck \<Rightarrow> error + string" where
  "checkPattern check =
     (if check_kind check = ''regex'' then
        (case check_regex check of None \<Rightarrow> Inl TypeError | Some source \<Rightarrow> Inr source)
      else if check_kind check = ''startsWith'' then
        (case escapeRegexValue (check_value check) of
           Inl e \<Rightarrow> Inl e | Inr s \<Rightarrow> Inr (''^'' @ s))
      else if check_kind check = ''endsWith'' then
        (case escapeRegexValue (check_value check) of
           Inl e \<Rightarrow> Inl e | Inr s \<Rightarrow> Inr (s @ ''$''))
      else escapeRegexValue (check_value check))"

text \<open>The body of the loop over the checks: one \<open>switch (check.kind)\<close>.\<close>

definition convertZodString_check :: "zcheck \<Rightarrow> node \<Rightarrow> error + node" where
  "convertZodString_check check result =
     (let kind = check_kind check in
      if kind = ''min'' then Inr (AList.update ''minLength'' (VLit (check_value check)) result)
      else if kind = ''max'' then Inr (AList.update ''maxLength'' (VLit (check_value check)) result)
      else if kind = ''length'' then
        Inr (AList.update ''maxLength'' (VLit (check_value check))
              (AList.update ''minLength'' (VLit (check_value check)) result))
      else if kind = ''regex'' then
        (case checkPattern check of
           Inl e \<Rightarrow> Inl e | Inr p \<Rightarrow> Inr (AList.update ''pattern'' (vstr p) result))
      else if kind = ''email'' then Inr (AList.update ''format'' (vstr ''email'') result)
      else if kind = ''url'' then Inr (AList.update ''format'' (vstr ''uri'') result)
      else if kind = ''uuid'' then Inr (AList.update ''format'' (vstr ''uuid'') result)
      else if kind = ''cuid'' \<or> kind = ''cuid2'' \<or> kind = ''ulid'' then Inr result
      else if kind = ''datetime'' then Inr (AList.update ''format'' (vstr ''date-time'') result)
      else if kind = ''date'' then Inr (AList.update ''format'' (vstr ''date'') result)
      else if kind = ''time'' then Inr (AList.update ''format'' (vstr ''time'') result)
      else if kind = ''duration'' then Inr (AList.update ''format'' (vstr ''duration'') result)
      else if kind = ''ip'' then Inr result
      else if kind = ''emoji'' then Inr result
      else if kind = ''base64'' then
        Inr (AList.update ''contentEncoding'' (vstr ''base64'') result)
      else if kind = ''startsWith'' \<or> kind = ''endsWith'' \<or> kind = ''includes'' then
        (case checkPattern check of
           Inl e \<Rightarrow> Inl e | Inr p \<Rightarrow> Inr (AList.update ''pattern'' (vstr p) result))
      else Inr result)"

fun convertZodString_loop :: "zcheck list \<Rightarrow> node \<Rightarrow> error + node" where
  "convertZodString_loop [] result = Inr result"
| "convertZodString_loop (check # checks) result =
     (case convertZodString_check check result of
        Inl e \<Rightarrow> Inl e
      | Inr result' \<Rightarrow> convertZodString_loop checks result')"

definition convertZodString :: "zod \<Rightarrow> opts \<Rightarrow> error + node" where
  "convertZodString schema opts =
     convertZodString_loop (orEmpty (def_checks schema)) [(''type'', vstr ''string'')]"


subsection \<open>convertZodType and its helpers\<close>

text \<open>\<open>const result = {}\<close> and the description attached from \<open>.describe()\<close>: the
  metadata that every branch of the switch spreads into its result.\<close>

definition zodDescription :: "zod \<Rightarrow> opts \<Rightarrow> node" where
  "zodDescription schema opts =
     (case def_description schema of
        None \<Rightarrow> []
      | Some d \<Rightarrow> if includeDescriptions opts \<and> d \<noteq> [] then [(''description'', vstr d)] else [])"

text \<open>\<open>inner.type && typeof inner.type === 'string'\<close>: the type of a node when it is one
  non-empty string.\<close>

definition scalarType :: "node \<Rightarrow> string option" where
  "scalarType n =
     (case map_of n ''type'' of
        Some (VLit (JStr t)) \<Rightarrow> if t = [] then None else Some t
      | _ \<Rightarrow> None)"

text \<open>convertZodNumber: the loop carries \<open>isInteger\<close> and \<open>result\<close>.\<close>

definition convertZodNumber_check :: "zcheck \<Rightarrow> bool \<times> node \<Rightarrow> bool \<times> node" where
  "convertZodNumber_check check st =
     (let kind = check_kind check; isInteger = fst st; result = snd st in
      if kind = ''int'' then (True, result)
      else if kind = ''min'' then
        (if check_inclusive check
         then (isInteger, AList.update ''minimum'' (VLit (check_value check)) result)
         else (isInteger, AList.update ''exclusiveMinimum'' (VLit (check_value check)) result))
      else if kind = ''max'' then
        (if check_inclusive check
         then (isInteger, AList.update ''maximum'' (VLit (check_value check)) result)
         else (isInteger, AList.update ''exclusiveMaximum'' (VLit (check_value check)) result))
      else if kind = ''multipleOf'' then
        (isInteger, AList.update ''multipleOf'' (VLit (check_value check)) result)
      else (isInteger, result))"

definition convertZodNumber :: "zod \<Rightarrow> node" where
  "convertZodNumber schema =
     (let (isInteger, result) = fold convertZodNumber_check (orEmpty (def_checks schema)) (False, [])
      in AList.update ''type'' (vstr (if isInteger then ''integer'' else ''number'')) result)"

text \<open>\<open>Object.values\<close>, and the values that the ZodNativeEnum branch keeps.\<close>

definition objectValues :: "jsval \<Rightarrow> jsval list" where
  "objectValues v =
     (case v of
        JObj kvs \<Rightarrow> map snd kvs
      | JArr xs \<Rightarrow> xs
      | JStr s \<Rightarrow> map (\<lambda>c. JStr [c]) s
      | _ \<Rightarrow> [])"

definition isJStr :: "jsval \<Rightarrow> bool" where
  "isJStr v = (case v of JStr _ \<Rightarrow> True | _ \<Rightarrow> False)"

definition isJNum :: "jsval \<Rightarrow> bool" where
  "isJNum v = (case v of JNum _ \<Rightarrow> True | _ \<Rightarrow> False)"

definition convertZodNativeEnum :: "zod \<Rightarrow> jsval list" where
  "convertZodNativeEnum schema =
     (let nativeEnumValues = filter (\<lambda>v. \<not> isJNum v \<or> isJNum v) (objectValues (def_values schema));
          stringValues = filter isJStr nativeEnumValues;
          numValues = filter isJNum nativeEnumValues
      in if length stringValues > 0 then stringValues else numValues)"

definition isZodOptional :: "zod \<Rightarrow> bool" where
  "isZodOptional schema =
     (let typeName = typeNameOf schema in
      if typeName = ''ZodOptional'' then True
      else if typeName = ''ZodDefault'' then True
      else False)"

definition unwrapZodOptional :: "zod \<Rightarrow> zod option" where
  "unwrapZodOptional schema =
     (let typeName = typeNameOf schema in
      if typeName = ''ZodOptional'' \<or> typeName = ''ZodDefault'' then def_innerType schema
      else Some schema)"

definition nullNode :: node where
  "nullNode = [(''type'', vstr ''null'')]"

text \<open>convertZodObject, after the loop: the node built from \<open>properties\<close>, \<open>required\<close> and
  the \<open>unknownKeys\<close> setting.\<close>

definition zodObjectResult :: "zod \<Rightarrow> (string \<times> node) list \<Rightarrow> string list \<Rightarrow> node" where
  "zodObjectResult schema properties required =
     (let result = [(''type'', vstr ''object'')];
          result = (if length properties > 0
                    then AList.update ''properties'' (VProps properties) result else result);
          result = (if length required > 0
                    then AList.update ''required'' (VLit (JArr (map JStr required))) result
                    else result)
      in if def_unknownKeys schema = Some ''strict''
         then AList.update ''additionalProperties'' (vbool False) result
         else if def_unknownKeys schema = Some ''passthrough''
         then AList.update ''additionalProperties'' (vbool True) result
         else result)"

text \<open>convertZodObject, inside the loop: the default of a ZodDefault wrapper goes onto the
  converted inner schema, unless that already has one (\<open>converted.default === undefined\<close>
  holds when the property is absent or holds \<open>undefined\<close>). \<open>defaultValue\<close> is called
  only inside the guard, so only there can the call raise.\<close>

definition attachFieldDefault :: "zod \<Rightarrow> opts \<Rightarrow> node \<Rightarrow> error + node" where
  "attachFieldDefault fieldSchema opts converted =
     (let typeName = typeNameOf fieldSchema in
      if includeDefaults opts \<and> typeName = ''ZodDefault''
         \<and> (map_of converted ''default'' = None
              \<or> map_of converted ''default'' = Some (VLit JUndefined))
      then (case def_defaultValue fieldSchema of
              Inl e \<Rightarrow> Inl e
            | Inr defaultVal \<Rightarrow>
               if defaultVal \<noteq> JUndefined
               then Inr (AList.update ''default'' (VLit defaultVal) converted)
               else Inr converted)
      else Inr converted)"

text \<open>\<open>properties[key] = converted\<close> on the object literal \<open>properties\<close>: an own property,
  except for the key \<open>__proto__\<close>, where the assignment sets the prototype of \<open>properties\<close>
  and adds no own property.\<close>

definition assignProperty :: "string \<Rightarrow> node \<Rightarrow> (string \<times> node) list \<Rightarrow> (string \<times> node) list" where
  "assignProperty key converted properties =
     (if key = ''__proto__'' then properties else AList.update key converted properties)"

text \<open>convertZodArray: \<open>minItems\<close> and \<open>maxItems\<close> from the three length members.\<close>

definition zodArrayLengths :: "zod \<Rightarrow> node \<Rightarrow> node" where
  "zodArrayLengths schema result =
     (let minLength = def_minLength schema;
          maxLength = def_maxLength schema;
          exactLength = def_exactLength schema
      in if exactLength \<noteq> JUndefined then
           AList.update ''maxItems'' (VLit exactLength)
             (AList.update ''minItems'' (VLit exactLength) result)
         else
           (let result = (if minLength \<noteq> JUndefined
                          then AList.update ''minItems'' (VLit minLength) result else result)
            in if maxLength \<noteq> JUndefined
               then AList.update ''maxItems'' (VLit maxLength) result else result))"

text \<open>convertZodTuple: \<open>result.minItems = items.length\<close>, and \<open>maxItems\<close> when there is no
  rest element.\<close>

definition zodTupleBounds :: "zod \<Rightarrow> node \<Rightarrow> node" where
  "zodTupleBounds schema result =
     (let items = orEmpty (def_items schema);
          result = AList.update ''minItems'' (VLit (JNum (int (length items)))) result
      in if def_rest schema = None
         then AList.update ''maxItems'' (VLit (JNum (int (length items)))) result
         else result)"

text \<open>Sizes of the parts of a schema: every recursive call of the converter below is on
  a proper part.\<close>

lemma size_def_fields:
  "size_option size (def_innerType s) < Suc (size s)"
  "size_option size (def_type s) < Suc (size s)"
  "size_option size (def_left s) < Suc (size s)"
  "size_option size (def_right s) < Suc (size s)"
  "size_option size (def_in s) < Suc (size s)"
  "size_option size (def_schema s) < Suc (size s)"
  "size_option size (def_valueType s) < Suc (size s)"
  "size_option size (def_catchall s) < Suc (size s)"
  "size_option size (def_rest s) < Suc (size s)"
  by (cases s; simp)+

lemma size_def_lists:
  "size_list size (orEmpty (def_items s)) < size s"
  "def_options s = Some os \<Longrightarrow> size_list size os < size s"
  "size_list (size_prod (\<lambda>_. 0) size) (orEmpty (def_shape s)) < size s"
  by (cases s; auto simp: orEmpty_def split: option.splits)+

lemma size_def_Some:
  "def_valueType s = Some v \<Longrightarrow> size v < size s"
  "def_catchall s = Some v \<Longrightarrow> size v < size s"
  "def_type s = Some v \<Longrightarrow> size v < size s"
  "def_rest s = Some v \<Longrightarrow> size v < size s"
  by (cases s; simp)+

lemma size_unwrapZodOptional:
  "size_option size (unwrapZodOptional f) < Suc (Suc (Suc (size f + n)))"
  using size_def_fields(1) [of f]
  by (auto simp: unwrapZodOptional_def Let_def)

text \<open>
  The converter and the helpers that call it back. \<open>convertZodTypes\<close> is
  \<open>items.map((item) => convertZodType(item, opts, depth))\<close>, and
  \<open>convertZodObject_fields\<close> the loop of convertZodObject over the entries of the shape,
  carrying \<open>properties\<close> and \<open>required\<close>. An exception leaves through \<open>Inl\<close> at the
  place where JavaScript would throw it. The constants \<open>typeName\<close> and \<open>result\<close> of
  convertZodType are written out as \<open>typeNameOf schema\<close> and \<open>zodDescription schema opts\<close>.
\<close>

function convertZodType :: "zod option \<Rightarrow> opts \<Rightarrow> int \<Rightarrow> error + node"
  and convertZodTypes :: "zod list \<Rightarrow> opts \<Rightarrow> int \<Rightarrow> error + node list"
  and convertZodObject :: "zod \<Rightarrow> opts \<Rightarrow> int \<Rightarrow> error + node"
  and convertZodObject_fields ::
    "(string \<times> zod) list \<Rightarrow> opts \<Rightarrow> int \<Rightarrow> (string \<times> node) list \<times> string list
       \<Rightarrow> error + (string \<times> node) list \<times> string list"
  and convertZodArray :: "zod \<Rightarrow> opts \<Rightarrow> int \<Rightarrow> error + node"
  and convertZodTuple :: "zod \<Rightarrow> opts \<Rightarrow> int \<Rightarrow> error + node"
where
  "convertZodType s opts depth =
     (if depth > maxDepth opts then Inr []
      else case s of
        None \<Rightarrow> Inl TypeError
      | Some schema \<Rightarrow>
         (if typeNameOf schema = ''ZodString'' then
            (case convertZodString schema opts of
               Inl e \<Rightarrow> Inl e | Inr r \<Rightarrow> Inr (spread (zodDescription schema opts) r))
          else if typeNameOf schema = ''ZodNumber'' then Inr (spread (zodDescription schema opts) (convertZodNumber schema))
          else if typeNameOf schema = ''ZodBigInt'' then
            Inr (spread (zodDescription schema opts) [(''type'', vstr ''integer''), (''format'', vstr ''int64'')])
          else if typeNameOf schema = ''ZodBoolean'' then Inr (spread (zodDescription schema opts) [(''type'', vstr ''boolean'')])
          else if typeNameOf schema = ''ZodNull'' then Inr (spread (zodDescription schema opts) [(''type'', vstr ''null'')])
          else if typeNameOf schema = ''ZodUndefined'' then Inr (spread (zodDescription schema opts) [(''not'', VNode [])])
          else if typeNameOf schema = ''ZodLiteral'' then
            Inr (spread (zodDescription schema opts) [(''const'', VLit (def_value schema))])
          else if typeNameOf schema = ''ZodEnum'' then
            Inr (spread (zodDescription schema opts) [(''type'', vstr ''string''), (''enum'', VLit (def_values schema))])
          else if typeNameOf schema = ''ZodNativeEnum'' then
            Inr (spread (zodDescription schema opts) [(''enum'', VLit (JArr (convertZodNativeEnum schema)))])
          else if typeNameOf schema = ''ZodObject'' then
            (case convertZodObject schema opts depth of
               Inl e \<Rightarrow> Inl e | Inr r \<Rightarrow> Inr (spread (zodDescription schema opts) r))
          else if typeNameOf schema = ''ZodArray'' then
            (case convertZodArray schema opts depth of
               Inl e \<Rightarrow> Inl e | Inr r \<Rightarrow> Inr (spread (zodDescription schema opts) r))
          else if typeNameOf schema = ''ZodTuple'' then
            (case convertZodTuple schema opts depth of
               Inl e \<Rightarrow> Inl e | Inr r \<Rightarrow> Inr (spread (zodDescription schema opts) r))
          else if typeNameOf schema = ''ZodUnion'' \<or> typeNameOf schema = ''ZodDiscriminatedUnion'' then
            (case def_options schema of
               None \<Rightarrow> Inl TypeError
             | Some options_ \<Rightarrow>
                (case convertZodTypes options_ opts (depth + 1) of
                   Inl e \<Rightarrow> Inl e
                 | Inr branches \<Rightarrow> Inr (spread (zodDescription schema opts) [(''anyOf'', VNodes branches)])))
          else if typeNameOf schema = ''ZodIntersection'' then
            (case convertZodType (def_left schema) opts (depth + 1) of
               Inl e \<Rightarrow> Inl e
             | Inr left \<Rightarrow>
                (case convertZodType (def_right schema) opts (depth + 1) of
                   Inl e \<Rightarrow> Inl e
                 | Inr right \<Rightarrow> Inr (spread (zodDescription schema opts) [(''allOf'', VNodes [left, right])])))
          else if typeNameOf schema = ''ZodOptional'' then
            (case convertZodType (def_innerType schema) opts (depth + 1) of
               Inl e \<Rightarrow> Inl e
             | Inr inner \<Rightarrow> Inr (spread (zodDescription schema opts) inner))
          else if typeNameOf schema = ''ZodNullable'' then
            (case convertZodType (def_innerType schema) opts (depth + 1) of
               Inl e \<Rightarrow> Inl e
             | Inr inner \<Rightarrow>
                (case scalarType inner of
                   Some t \<Rightarrow>
                     Inr (AList.update ''type'' (VLit (JArr [JStr t, JStr ''null'']))
                           (spread (zodDescription schema opts) inner))
                 | None \<Rightarrow> Inr (spread (zodDescription schema opts) [(''anyOf'', VNodes [inner, nullNode])])))
          else if typeNameOf schema = ''ZodDefault'' then
            (case convertZodType (def_innerType schema) opts (depth + 1) of
               Inl e \<Rightarrow> Inl e
             | Inr inner \<Rightarrow>
                (case def_defaultValue schema of
                   Inl e \<Rightarrow> Inl e
                 | Inr defaultVal \<Rightarrow>
                    if includeDefaults opts \<and> defaultVal \<noteq> JUndefined
                    then Inr (AList.update ''default'' (VLit defaultVal)
                               (spread (zodDescription schema opts) inner))
                    else Inr (spread (zodDescription schema opts) inner)))
          else if typeNameOf schema = ''ZodCatch'' then
            convertZodType (def_innerType schema) opts (depth + 1)
          else if typeNameOf schema = ''ZodBranded'' then
            convertZodType (def_type schema) opts (depth + 1)
          else if typeNameOf schema = ''ZodReadonly'' then
            (case convertZodType (def_innerType schema) opts (depth + 1) of
               Inl e \<Rightarrow> Inl e
             | Inr inner \<Rightarrow> Inr (AList.update ''readOnly'' (vbool True) (spread (zodDescription schema opts) inner)))
          else if typeNameOf schema = ''ZodRecord'' then
            (case def_valueType schema of
               Some valueSchema \<Rightarrow>
                 (case convertZodType (Some valueSchema) opts (depth + 1) of
                    Inl e \<Rightarrow> Inl e
                  | Inr v \<Rightarrow>
                     Inr (AList.update ''additionalProperties'' (VNode v)
                           (spread (zodDescription schema opts) [(''type'', vstr ''object'')])))
             | None \<Rightarrow>
                 Inr (AList.update ''additionalProperties'' (vbool True)
                       (spread (zodDescription schema opts) [(''type'', vstr ''object'')])))
          else if typeNameOf schema = ''ZodMap'' then Inr (spread (zodDescription schema opts) [(''type'', vstr ''object'')])
          else if typeNameOf schema = ''ZodSet'' then
            (case def_valueType schema of
               Some valueSchema \<Rightarrow>
                 (case convertZodType (Some valueSchema) opts (depth + 1) of
                    Inl e \<Rightarrow> Inl e
                  | Inr v \<Rightarrow>
                     Inr (AList.update ''items'' (VNode v)
                           (spread (zodDescription schema opts)
                              [(''type'', vstr ''array''), (''uniqueItems'', vbool True)])))
             | None \<Rightarrow>
                 Inr (spread (zodDescription schema opts)
                        [(''type'', vstr ''array''), (''uniqueItems'', vbool True)]))
          else if typeNameOf schema = ''ZodFunction'' \<or> typeNameOf schema = ''ZodLazy'' \<or> typeNameOf schema = ''ZodPromise''
                  \<or> typeNameOf schema = ''ZodUnknown'' \<or> typeNameOf schema = ''ZodAny'' then Inr (spread (zodDescription schema opts) [])
          else if typeNameOf schema = ''ZodNever'' then Inr (spread (zodDescription schema opts) [(''not'', VNode [])])
          else if typeNameOf schema = ''ZodVoid'' then Inr (spread (zodDescription schema opts) [(''type'', vstr ''null'')])
          else if typeNameOf schema = ''ZodDate'' then
            Inr (spread (zodDescription schema opts) [(''type'', vstr ''string''), (''format'', vstr ''date-time'')])
          else if typeNameOf schema = ''ZodSymbol'' then Inr (spread (zodDescription schema opts) [(''type'', vstr ''string'')])
          else if typeNameOf schema = ''ZodPipeline'' then
            convertZodType (def_in schema) opts (depth + 1)
          else if typeNameOf schema = ''ZodEffects'' then
            convertZodType (def_schema schema) opts (depth + 1)
          else Inr (spread (zodDescription schema opts) [])))"
| "convertZodTypes [] opts depth = Inr []"
| "convertZodTypes (item # items) opts depth =
     (case convertZodType (Some item) opts depth of
        Inl e \<Rightarrow> Inl e
      | Inr n \<Rightarrow>
         (case convertZodTypes items opts depth of
            Inl e \<Rightarrow> Inl e
          | Inr ns \<Rightarrow> Inr (n # ns)))"
| "convertZodObject schema opts depth =
     (case convertZodObject_fields (orEmpty (def_shape schema)) opts depth ([], []) of
        Inl e \<Rightarrow> Inl e
      | Inr collected \<Rightarrow>
         (case def_catchall schema of
            None \<Rightarrow> Inr (zodObjectResult schema (fst collected) (snd collected))
          | Some catchall \<Rightarrow>
              if typeNameOf catchall \<noteq> ''ZodNever'' then
                (case convertZodType (Some catchall) opts (depth + 1) of
                   Inl e \<Rightarrow> Inl e
                 | Inr c \<Rightarrow>
                    Inr (AList.update ''additionalProperties'' (VNode c)
                          (zodObjectResult schema (fst collected) (snd collected))))
              else Inr (zodObjectResult schema (fst collected) (snd collected))))"
| "convertZodObject_fields [] opts depth acc = Inr acc"
| "convertZodObject_fields ((key, fieldSchema) # entries) opts depth acc =
     (case convertZodType (unwrapZodOptional fieldSchema) opts (depth + 1) of
        Inl e \<Rightarrow> Inl e
      | Inr converted \<Rightarrow>
         (case attachFieldDefault fieldSchema opts converted of
            Inl e \<Rightarrow> Inl e
          | Inr withDefault \<Rightarrow>
             convertZodObject_fields entries opts depth
               (assignProperty key withDefault (fst acc),
                if \<not> isZodOptional fieldSchema then snd acc @ [key] else snd acc)))"
| "convertZodArray schema opts depth =
     (case def_type schema of
        None \<Rightarrow> Inr (zodArrayLengths schema [(''type'', vstr ''array'')])
      | Some itemSchema \<Rightarrow>
         (case convertZodType (Some itemSchema) opts (depth + 1) of
            Inl e \<Rightarrow> Inl e
          | Inr i \<Rightarrow>
             Inr (zodArrayLengths schema
                    (AList.update ''items'' (VNode i) [(''type'', vstr ''array'')]))))"
| "convertZodTuple schema opts depth =
     (case convertZodTypes (orEmpty (def_items schema)) opts (depth + 1) of
        Inl e \<Rightarrow> Inl e
      | Inr prefixItems \<Rightarrow>
         (case def_rest schema of
            Some rest \<Rightarrow>
              (case convertZodType (Some rest) opts (depth + 1) of
                 Inl e \<Rightarrow> Inl e
               | Inr i \<Rightarrow>
                  Inr (zodTupleBounds schema
                         (AList.update ''items'' (VNode i)
                            [(''type'', vstr ''array''), (''prefixItems'', VNodes prefixItems)])))
          | None \<Rightarrow>
              Inr (zodTupleBounds schema
                     (AList.update ''items'' (vbool False)
                        [(''type'', vstr ''array''), (''prefixItems'', VNodes prefixItems)]))))"
  by pat_completeness auto

termination
  apply (relation "inv_image (less_than <*lex*> less_than) (\<lambda>x. case x of
      Inl (Inl (s, _, _)) \<Rightarrow> (size_option size s, 3::nat)
    | Inl (Inr (Inl (items, _, _))) \<Rightarrow> (Suc (size_list size items), 1)
    | Inl (Inr (Inr (schema, _, _))) \<Rightarrow> (Suc (size schema), 2)
    | Inr (Inl (entries, _, _, _)) \<Rightarrow> (Suc (size_list (size_prod (\<lambda>_. 0) size) entries), 1)
    | Inr (Inr (Inl (schema, _, _))) \<Rightarrow> (Suc (size schema), 2)
    | Inr (Inr (Inr (schema, _, _))) \<Rightarrow> (Suc (size schema), 2))")
  subgoal by (intro wf_inv_image wf_lex_prod wf_less_than)
  apply (simp_all add: size_def_fields size_def_lists size_def_Some size_unwrapZodOptional)
  done

declare convertZodType.simps [simp del]
declare convertZodObject.simps [simp del]
declare convertZodArray.simps [simp del]
declare convertZodTuple.simps [simp del]

text \<open>The public entry point.\<close>

definition zodToOpenAPI :: "zod \<Rightarrow> options \<Rightarrow> error + node" where
  "zodToOpenAPI schema options = convertZodType (Some schema) (resolveOptions options) 0"



section \<open>Dialect B: the Joi description (src/adapters/joi.ts)\<close>

text \<open>\<open>JoiFlags\<close>, the members that the adapter reads. The adapter reads each through
  \<open>desc.flags?.member\<close>, so a description without \<open>flags\<close> is one whose flags are all
  absent. \<open>flag_only\<close> is the truth value of \<open>flags.only\<close>.\<close>

record jflags =
  flag_presence :: "string option"
  flag_default :: jsval
  flag_description :: "string option"
  flag_only :: bool
  flag_allowUnknown :: "bool option"
  flag_unknown :: "bool option"

text \<open>\<open>args['regex']\<close> of a pattern rule: a \<open>RegExp\<close> (its source), the string that Joi
  serialises it to, or nothing usable.\<close>

datatype jregex = RegExpObject string | RegExpString string | NoRegExp

text \<open>\<open>JoiRule\<close>: the name and the arguments that the adapter reads from \<open>rule.args\<close>.\<close>

datatype 'd jrule = JoiRule
  (rule_name: string)
  (arg_limit: jsval)
  (arg_base: jsval)
  (arg_version: "string list option")
  (arg_regex: jregex)
  (arg_value: "'d option")

text \<open>\<open>JoiAlternativeMatch\<close>: only \<open>schema\<close> is read.\<close>

datatype 'd jmatch = JoiMatch (match_schema: "'d option")

text \<open>\<open>JoiDescription\<close>, the output of \<open>schema.describe()\<close>. \<open>desc_keys\<close> lists the keys as
  \<open>Object.entries\<close> does.\<close>

datatype jdesc = JoiDescription
  (desc_type: string)
  (desc_flags: jflags)
  (desc_rules: "jdesc jrule list option")
  (desc_keys: "(string \<times> jdesc) list option")
  (desc_items: "jdesc list option")
  (desc_ordered: "jdesc list option")
  (desc_matches: "jdesc jmatch list option")
  (desc_allow: "jsval list option")

subsection \<open>convertString\<close>

text \<open>\<open>/^\/(.*)\/[gimsuy]*$/.exec(regex)\<close>: the text between the first character, a slash,
  and the slash that stands before the trailing run of flag letters, provided no line
  terminator lies between them. Characters stand for code units below 256.\<close>

definition regexFlag :: "char \<Rightarrow> bool" where
  "regexFlag c \<longleftrightarrow> c \<in> set ''gimsuy''"

definition lineTerminator :: "char \<Rightarrow> bool" where
  "lineTerminator c \<longleftrightarrow> c = CHR 0x0A \<or> c = CHR 0x0D"

definition stripRegexDelimiters :: "string \<Rightarrow> string option" where
  "stripRegexDelimiters regex =
     (case regex of
        [] \<Rightarrow> None
      | c # rest \<Rightarrow>
         if c \<noteq> CHR ''/'' then None
         else (case dropWhile regexFlag (rev rest) of
                 [] \<Rightarrow> None
               | d # body \<Rightarrow>
                  if d = CHR ''/'' \<and> \<not> list_ex lineTerminator body then Some (rev body)
                  else None))"

definition convertString_rule :: "'d jrule \<Rightarrow> node \<Rightarrow> node" where
  "convertString_rule rule result =
     (let name = rule_name rule in
      if name = ''min'' then AList.update ''minLength'' (VLit (arg_limit rule)) result
      else if name = ''max'' then AList.update ''maxLength'' (VLit (arg_limit rule)) result
      else if name = ''length'' then
        AList.update ''maxLength'' (VLit (arg_limit rule))
          (AList.update ''minLength'' (VLit (arg_limit rule)) result)
      else if name = ''email'' then AList.update ''format'' (vstr ''email'') result
      else if name = ''uri'' then AList.update ''format'' (vstr ''uri'') result
      else if name = ''guid'' \<or> name = ''uuid'' then AList.update ''format'' (vstr ''uuid'') result
      else if name = ''isoDate'' then AList.update ''format'' (vstr ''date-time'') result
      else if name = ''isoDuration'' then AList.update ''format'' (vstr ''duration'') result
      else if name = ''hostname'' then AList.update ''format'' (vstr ''hostname'') result
      else if name = ''ip'' then
        (case arg_version rule of
           None \<Rightarrow> result
         | Some versions \<Rightarrow>
            if ''ipv6'' \<in> set versions \<and> ''ipv4'' \<notin> set versions
            then AList.update ''format'' (vstr ''ipv6'') result
            else if ''ipv4'' \<in> set versions \<and> ''ipv6'' \<notin> set versions
            then AList.update ''format'' (vstr ''ipv4'') result
            else result)
      else if name = ''pattern'' \<or> name = ''regex'' then
        (case arg_regex rule of
           RegExpObject source \<Rightarrow> AList.update ''pattern'' (vstr source) result
         | RegExpString regex \<Rightarrow>
            (case stripRegexDelimiters regex of
               Some m \<Rightarrow> AList.update ''pattern'' (vstr m) result
             | None \<Rightarrow> AList.update ''pattern'' (vstr regex) result)
         | NoRegExp \<Rightarrow> result)
      else if name = ''alphanum'' then AList.update ''pattern'' (vstr ''^[a-zA-Z0-9]*$'') result
      else if name = ''token'' then AList.update ''pattern'' (vstr ''^[a-zA-Z0-9_]*$'') result
      else if name = ''hex'' then AList.update ''pattern'' (vstr ''^[a-fA-F0-9]*$'') result
      else if name = ''base64'' then AList.update ''contentEncoding'' (vstr ''base64'') result
      else if name = ''dataUri'' then AList.update ''pattern'' (vstr ''^data:.*;base64,'') result
      else result)"

definition convertString :: "jdesc \<Rightarrow> opts \<Rightarrow> node" where
  "convertString desc opts =
     fold convertString_rule (orEmpty (desc_rules desc)) [(''type'', vstr ''string'')]"

subsection \<open>convertNumber, convertBoolean\<close>

definition convertNumber_rule :: "'d jrule \<Rightarrow> bool \<times> node \<Rightarrow> bool \<times> node" where
  "convertNumber_rule rule st =
     (let name = rule_name rule; isInteger = fst st; result = snd st in
      if name = ''integer'' then (True, result)
      else if name = ''min'' then (isInteger, AList.update ''minimum'' (VLit (arg_limit rule)) result)
      else if name = ''max'' then (isInteger, AList.update ''maximum'' (VLit (arg_limit rule)) result)
      else if name = ''greater'' then
        (isInteger, AList.update ''exclusiveMinimum'' (VLit (arg_limit rule)) result)
      else if name = ''less'' then
        (isInteger, AList.update ''exclusiveMaximum'' (VLit (arg_limit rule)) result)
      else if name = ''multiple'' then
        (isInteger, AList.update ''multipleOf'' (VLit (arg_base rule)) result)
      else (isInteger, result))"

definition convertNumber :: "jdesc \<Rightarrow> node" where
  "convertNumber desc =
     (let (isInteger, result) = fold convertNumber_rule (orEmpty (desc_rules desc)) (False, [])
      in AList.update ''type'' (vstr (if isInteger then ''integer'' else ''number'')) result)"

definition convertBoolean :: "jdesc \<Rightarrow> node" where
  "convertBoolean desc = [(''type'', vstr ''boolean'')]"

subsection \<open>convertJoiDescription and its helpers\<close>

text \<open>The metadata collected before the dispatch: \<open>flags.description\<close> and \<open>flags.default\<close>.\<close>

definition joiMetadata :: "jdesc \<Rightarrow> opts \<Rightarrow> node" where
  "joiMetadata desc opts =
     (let result = [];
          result = (case flag_description (desc_flags desc) of
                      None \<Rightarrow> result
                    | Some d \<Rightarrow> if includeDescriptions opts \<and> d \<noteq> []
                               then AList.update ''description'' (vstr d) result else result);
          result = (if includeDefaults opts \<and> flag_default (desc_flags desc) \<noteq> JUndefined
                    then AList.update ''default'' (VLit (flag_default (desc_flags desc))) result
                    else result)
      in result)"

text \<open>\<open>flags.only && Array.isArray(desc.allow) && desc.allow.length > 0\<close>\<close>

definition isJoiEnum :: "jdesc \<Rightarrow> bool" where
  "isJoiEnum desc \<longleftrightarrow> flag_only (desc_flags desc) \<and> orEmpty (desc_allow desc) \<noteq> []"

text \<open>\<open>Array.isArray(desc.allow) && desc.allow.includes(null)\<close>\<close>

definition hasNullAllow :: "jdesc \<Rightarrow> bool" where
  "hasNullAllow desc \<longleftrightarrow> JNull \<in> set (orEmpty (desc_allow desc))"

text \<open>The values that count as false in a condition.\<close>

definition falsy :: "jsval \<Rightarrow> bool" where
  "falsy v \<longleftrightarrow> v = JUndefined \<or> v = JNull \<or> v = JBool False \<or> v = JNum 0 \<or> v = JStr []"

text \<open>The last step of convertJoiDescription, \<open>Apply nullable\<close>, on \<open>combined\<close>.\<close>

definition applyNullable :: "jdesc \<Rightarrow> node \<Rightarrow> node" where
  "applyNullable desc combined =
     (if hasNullAllow desc \<and> \<not> flag_only (desc_flags desc) then
        (case scalarType combined of
           Some t \<Rightarrow> AList.update ''type'' (VLit (JArr [JStr t, JStr ''null''])) combined
         | None \<Rightarrow>
            (case map_of combined ''type'' of
               Some (VLit (JArr ts)) \<Rightarrow>
                 if JStr ''null'' \<notin> set ts
                 then AList.update ''type'' (VLit (JArr (ts @ [JStr ''null'']))) combined
                 else combined
             | Some (VLit v) \<Rightarrow>
                 if falsy v \<and> length combined > 0
                 then [(''anyOf'', VNodes [combined, nullNode])]
                 else combined
             | Some _ \<Rightarrow> combined
             | None \<Rightarrow>
                 if length combined > 0
                 then [(''anyOf'', VNodes [combined, nullNode])]
                 else combined))
      else combined)"

text \<open>\<open>desc.flags?.allowUnknown ?? desc.flags?.unknown\<close>\<close>

definition allowUnknownOf :: "jdesc \<Rightarrow> bool option" where
  "allowUnknownOf desc =
     (case flag_allowUnknown (desc_flags desc) of
        Some b \<Rightarrow> Some b
      | None \<Rightarrow> flag_unknown (desc_flags desc))"

text \<open>The length rules of convertArray.\<close>

definition convertArray_rule :: "'d jrule \<Rightarrow> node \<Rightarrow> node" where
  "convertArray_rule rule result =
     (let name = rule_name rule in
      if name = ''min'' then AList.update ''minItems'' (VLit (arg_limit rule)) result
      else if name = ''max'' then AList.update ''maxItems'' (VLit (arg_limit rule)) result
      else if name = ''length'' then
        AList.update ''maxItems'' (VLit (arg_limit rule))
          (AList.update ''minItems'' (VLit (arg_limit rule)) result)
      else if name = ''unique'' then AList.update ''uniqueItems'' (vbool True) result
      else result)"

text \<open>\<open>patternRules[0]?.args?.['value']\<close> of the rules named \<open>pattern\<close>.\<close>

definition patternValue :: "jdesc \<Rightarrow> jdesc option" where
  "patternValue desc =
     (case filter (\<lambda>r. rule_name r = ''pattern'') (orEmpty (desc_rules desc)) of
        [] \<Rightarrow> None
      | r # _ \<Rightarrow> arg_value r)"

text \<open>The enum branch: \<open>{...result, enum: desc.allow}\<close> when the list holds \<open>null\<close>,
  \<open>{...result, enum: enumValues}\<close> otherwise.\<close>

definition joiEnum :: "jdesc \<Rightarrow> node \<Rightarrow> node" where
  "joiEnum desc result =
     (let enumValues = filter (\<lambda>v. v \<noteq> JNull) (orEmpty (desc_allow desc));
          hasNull = (JNull \<in> set (orEmpty (desc_allow desc)))
      in if hasNull
         then spread result [(''enum'', VLit (JArr (orEmpty (desc_allow desc))))]
         else spread result [(''enum'', VLit (JArr enumValues))])"

text \<open>convertObject, after the loop: the node built from \<open>properties\<close>, \<open>required\<close> and the
  \<open>allowUnknown\<close> flag.\<close>

definition joiObjectResult :: "jdesc \<Rightarrow> (string \<times> node) list \<Rightarrow> string list \<Rightarrow> node" where
  "joiObjectResult desc properties required =
     (let result = [(''type'', vstr ''object'')];
          result = (if length properties > 0
                    then AList.update ''properties'' (VProps properties) result else result);
          result = (if length required > 0
                    then AList.update ''required'' (VLit (JArr (map JStr required))) result
                    else result)
      in if allowUnknownOf desc = Some False
         then AList.update ''additionalProperties'' (vbool False) result
         else result)"

text \<open>Sizes of the parts of a description: every recursive call of the converter below
  is on a proper part.\<close>

lemma size_desc_lists:
  "size_list size (orEmpty (desc_ordered d)) < size d"
  "size_list size (orEmpty (desc_items d)) < size d"
  "size_list (size_prod (\<lambda>_. 0) size) (orEmpty (desc_keys d)) < size d"
  "size_list (size_jmatch size) (orEmpty (desc_matches d)) < size d"
  "size_list (size_jrule size) (orEmpty (desc_rules d)) < size d"
  by (cases d; auto simp: orEmpty_def split: option.splits)+

lemma size_hd_items:
  "0 < length (orEmpty (desc_items d)) \<Longrightarrow> size (hd (orEmpty (desc_items d))) < size d"
  using size_desc_lists(2) [of d]
  by (cases "orEmpty (desc_items d)") auto

lemma size_match_schema:
  "match_schema m = Some s \<Longrightarrow> size s < Suc (size_jmatch size m + n)"
  by (cases m) auto

lemma size_arg_value:
  "arg_value r = Some v \<Longrightarrow> size v < size_jrule size r"
  by (cases r) auto

lemma size_filter_hd:
  "filter P rs = r # rest \<Longrightarrow> size_jrule size r \<le> size_list (size_jrule size) rs"
proof (induction rs)
  case Nil
  then show ?case by simp
next
  case (Cons a rs)
  then show ?case by (cases "P a") auto
qed

lemma size_patternValue:
  "patternValue d = Some v \<Longrightarrow> size v < size d"
  using size_desc_lists(5) [of d]
  by (auto simp: patternValue_def split: list.splits dest!: size_filter_hd size_arg_value)

text \<open>
  The converter and the helpers that call it back, written as in Dialect A:
  \<open>convertJoiDescriptions\<close> is the \<open>map\<close> over a list of descriptions,
  \<open>convertObject_fields\<close> the loop over the keys, and \<open>convertAlternatives_matches\<close> the
  \<open>map\<close> and \<open>filter\<close> over the matches.
\<close>

function convertJoiDescription :: "jdesc option \<Rightarrow> opts \<Rightarrow> int \<Rightarrow> error + node"
  and convertJoiDescriptions :: "jdesc list \<Rightarrow> opts \<Rightarrow> int \<Rightarrow> error + node list"
  and convertObject :: "jdesc \<Rightarrow> opts \<Rightarrow> int \<Rightarrow> error + node"
  and convertObject_fields ::
    "(string \<times> jdesc) list \<Rightarrow> opts \<Rightarrow> int \<Rightarrow> (string \<times> node) list \<times> string list
       \<Rightarrow> error + (string \<times> node) list \<times> string list"
  and convertArray :: "jdesc \<Rightarrow> opts \<Rightarrow> int \<Rightarrow> error + node"
  and convertAlternatives :: "jdesc \<Rightarrow> opts \<Rightarrow> int \<Rightarrow> error + node"
  and convertAlternatives_matches :: "jdesc jmatch list \<Rightarrow> opts \<Rightarrow> int \<Rightarrow> error + node list"
where
  "convertJoiDescription d opts depth =
     (if depth > maxDepth opts then Inr []
      else case d of
        None \<Rightarrow> Inl TypeError
      | Some desc \<Rightarrow>
         (if isJoiEnum desc then Inr (joiEnum desc (joiMetadata desc opts))
          else
            (case (if desc_type desc = ''string'' then Inr (convertString desc opts)
                   else if desc_type desc = ''number'' then Inr (convertNumber desc)
                   else if desc_type desc = ''boolean'' then Inr (convertBoolean desc)
                   else if desc_type desc = ''object'' then convertObject desc opts depth
                   else if desc_type desc = ''array'' then convertArray desc opts depth
                   else if desc_type desc = ''alternatives'' then convertAlternatives desc opts depth
                   else if desc_type desc = ''date'' then
                     Inr [(''type'', vstr ''string''), (''format'', vstr ''date-time'')]
                   else if desc_type desc = ''binary'' then
                     Inr [(''type'', vstr ''string''), (''contentEncoding'', vstr ''base64'')]
                   else Inr []) of
               Inl e \<Rightarrow> Inl e
             | Inr typeSchema \<Rightarrow>
                Inr (applyNullable desc (spread (joiMetadata desc opts) typeSchema)))))"
| "convertJoiDescriptions [] opts depth = Inr []"
| "convertJoiDescriptions (item # items) opts depth =
     (case convertJoiDescription (Some item) opts depth of
        Inl e \<Rightarrow> Inl e
      | Inr n \<Rightarrow>
         (case convertJoiDescriptions items opts depth of
            Inl e \<Rightarrow> Inl e
          | Inr ns \<Rightarrow> Inr (n # ns)))"
| "convertObject desc opts depth =
     (case convertObject_fields (orEmpty (desc_keys desc)) opts depth ([], []) of
        Inl e \<Rightarrow> Inl e
      | Inr collected \<Rightarrow>
         (case patternValue desc of
            Some valueDesc \<Rightarrow>
              (case convertJoiDescription (Some valueDesc) opts (depth + 1) of
                 Inl e \<Rightarrow> Inl e
               | Inr v \<Rightarrow>
                  Inr (AList.update ''additionalProperties'' (VNode v)
                        (joiObjectResult desc (fst collected) (snd collected))))
          | None \<Rightarrow> Inr (joiObjectResult desc (fst collected) (snd collected))))"
| "convertObject_fields [] opts depth acc = Inr acc"
| "convertObject_fields ((key, fieldDesc) # entries) opts depth acc =
     (case convertJoiDescription (Some fieldDesc) opts (depth + 1) of
        Inl e \<Rightarrow> Inl e
      | Inr converted \<Rightarrow>
         convertObject_fields entries opts depth
           (assignProperty key converted (fst acc),
            if flag_presence (desc_flags fieldDesc) = Some ''required''
            then snd acc @ [key] else snd acc))"
| "convertArray desc opts depth =
     (if length (orEmpty (desc_ordered desc)) > 0 then
        (case convertJoiDescriptions (orEmpty (desc_ordered desc)) opts (depth + 1) of
           Inl e \<Rightarrow> Inl e
         | Inr prefixItems \<Rightarrow>
            Inr (AList.update ''maxItems''
                   (VLit (JNum (int (length (orEmpty (desc_ordered desc))))))
                (AList.update ''minItems''
                   (VLit (JNum (int (length (orEmpty (desc_ordered desc))))))
                (AList.update ''items'' (vbool False)
                (AList.update ''prefixItems'' (VNodes prefixItems)
                   [(''type'', vstr ''array'')])))))
      else if length (orEmpty (desc_items desc)) > 0 then
        (if length (orEmpty (desc_items desc)) = 1 then
           (case convertJoiDescription (Some (hd (orEmpty (desc_items desc)))) opts (depth + 1) of
              Inl e \<Rightarrow> Inl e
            | Inr i \<Rightarrow>
               Inr (fold convertArray_rule (orEmpty (desc_rules desc))
                      (AList.update ''items'' (VNode i) [(''type'', vstr ''array'')])))
         else
           (case convertJoiDescriptions (orEmpty (desc_items desc)) opts (depth + 1) of
              Inl e \<Rightarrow> Inl e
            | Inr branches \<Rightarrow>
               Inr (fold convertArray_rule (orEmpty (desc_rules desc))
                      (AList.update ''items'' (VNode [(''anyOf'', VNodes branches)])
                         [(''type'', vstr ''array'')]))))
      else Inr (fold convertArray_rule (orEmpty (desc_rules desc)) [(''type'', vstr ''array'')]))"
| "convertAlternatives desc opts depth =
     (case convertAlternatives_matches (orEmpty (desc_matches desc)) opts depth of
        Inl e \<Rightarrow> Inl e
      | Inr schemas \<Rightarrow>
         if length schemas = 0 then Inr []
         else if length schemas = 1 then Inr (hd schemas)
         else Inr [(''anyOf'', VNodes schemas)])"
| "convertAlternatives_matches [] opts depth = Inr []"
| "convertAlternatives_matches (m # matches) opts depth =
     (case match_schema m of
        Some schema \<Rightarrow>
          (case convertJoiDescription (Some schema) opts (depth + 1) of
             Inl e \<Rightarrow> Inl e
           | Inr s \<Rightarrow>
              (case convertAlternatives_matches matches opts depth of
                 Inl e \<Rightarrow> Inl e
               | Inr ss \<Rightarrow> Inr (s # ss)))
      | None \<Rightarrow> convertAlternatives_matches matches opts depth)"
  by pat_completeness auto

termination
  apply (relation "inv_image (less_than <*lex*> less_than) (\<lambda>x. case x of
      Inl (Inl (d, _, _)) \<Rightarrow> (size_option size d, 3::nat)
    | Inl (Inr (Inl (items, _, _))) \<Rightarrow> (Suc (size_list size items), 1)
    | Inl (Inr (Inr (desc, _, _))) \<Rightarrow> (Suc (size desc), 2)
    | Inr (Inl (Inl (entries, _, _, _))) \<Rightarrow> (Suc (size_list (size_prod (\<lambda>_. 0) size) entries), 1)
    | Inr (Inl (Inr (desc, _, _))) \<Rightarrow> (Suc (size desc), 2)
    | Inr (Inr (Inl (desc, _, _))) \<Rightarrow> (Suc (size desc), 2)
    | Inr (Inr (Inr (matches, _, _))) \<Rightarrow> (Suc (size_list (size_jmatch size) matches), 1))")
  subgoal by (intro wf_inv_image wf_lex_prod wf_less_than)
  apply (simp_all add: size_desc_lists size_hd_items size_match_schema size_patternValue)
  done

declare convertJoiDescription.simps [simp del]
declare convertObject.simps [simp del]
declare convertArray.simps [simp del]
declare convertAlternatives.simps [simp del]

text \<open>The \<open>switch (desc.type)\<close> of convertJoiDescription on its own: the \<open>typeSchema\<close> that
  is spread over the metadata to give \<open>combined\<close>.\<close>

definition joiTypeSchema :: "jdesc \<Rightarrow> opts \<Rightarrow> int \<Rightarrow> error + node" where
  "joiTypeSchema desc opts depth =
     (if desc_type desc = ''string'' then Inr (convertString desc opts)
      else if desc_type desc = ''number'' then Inr (convertNumber desc)
      else if desc_type desc = ''boolean'' then Inr (convertBoolean desc)
      else if desc_type desc = ''object'' then convertObject desc opts depth
      else if desc_type desc = ''array'' then convertArray desc opts depth
      else if desc_type desc = ''alternatives'' then convertAlternatives desc opts depth
      else if desc_type desc = ''date'' then
        Inr [(''type'', vstr ''string''), (''format'', vstr ''date-time'')]
      else if desc_type desc = ''binary'' then
        Inr [(''type'', vstr ''string''), (''contentEncoding'', vstr ''base64'')]
      else Inr [])"

text \<open>The public entry points. \<open>joiDescriptionToOpenAPI\<close> takes a value of type
  \<open>unknown\<close>, so it may be handed \<open>undefined\<close>.\<close>

definition joiDescriptionToOpenAPI :: "jdesc option \<Rightarrow> options \<Rightarrow> error + node" where
  "joiDescriptionToOpenAPI description options =
     convertJoiDescription description (resolveOptions options) 0"


section \<open>The reference resolver (src/builder/_zodResolver.ts)\<close>

text \<open>
  A run-time value handed to the resolver: a string, an object, or another primitive.
  Of an object the resolver and the duck-typing tests see whether it has a \<open>_def\<close> member
  (and then the definition tree read through it), what kind of member \<open>parse\<close> is, the
  description that a callable \<open>describe\<close> member returns, and the own properties that
  make it a hand-written schema.
\<close>

datatype member = Absent | NotAFunction | Function

datatype jsobject = JSObject
  (obj_def: "zod option")
  (obj_parse: member)
  (obj_describe: "jdesc option")
  (obj_own: node)

datatype jsvalue =
    StringValue string
  | ObjectValue jsobject
  | NullValue
  | UndefinedValue
  | NumberValue int
  | BooleanValue bool

text \<open>An object literal: own properties and nothing else.\<close>

definition plainObject :: "node \<Rightarrow> jsvalue" where
  "plainObject n = ObjectValue (JSObject None Absent None n)"

text \<open>isZodSchema (declared in src/builder/SchemaBuilder.ts).\<close>

definition isZodSchema :: "jsvalue \<Rightarrow> bool" where
  "isZodSchema v =
     (case v of
        ObjectValue ob \<Rightarrow> obj_def ob \<noteq> None \<and> obj_parse ob \<noteq> Absent \<and> obj_parse ob = Function
      | _ \<Rightarrow> False)"

text \<open>Modelled from the spec: isJoiSchema, which src/builder/_zodResolver.ts imports from
  SchemaBuilder but whose declaration is not among the sources. The spec: the input
  matches the Dialect-B shape when it "has a callable describe-like member"; the tests
  add that \<open>null\<close>, \<open>undefined\<close>, strings, numbers and plain objects do not.\<close>

definition isJoiSchema :: "jsvalue \<Rightarrow> bool" where
  "isJoiSchema v = (case v of ObjectValue ob \<Rightarrow> obj_describe ob \<noteq> None | _ \<Rightarrow> False)"

text \<open>The definition tree that the Zod adapter reads from an object: every member is
  read through \<open>schema._def?.member\<close>, so an object without \<open>_def\<close> has none.\<close>

definition defOf :: "jsobject \<Rightarrow> zod" where
  "defOf ob =
     (case obj_def ob of
        Some z \<Rightarrow> z
      | None \<Rightarrow> ZodType None None None JUndefined JUndefined None None None None
          JUndefined JUndefined JUndefined None None None None None None (Inr JUndefined) None None None)"

text \<open>joiToOpenAPI: \<open>schema.describe()\<close>, then the conversion at depth 0.\<close>

definition joiToOpenAPI :: "jsobject \<Rightarrow> options \<Rightarrow> error + node" where
  "joiToOpenAPI schema options =
     (case obj_describe schema of
        None \<Rightarrow> Inl TypeError
      | Some description \<Rightarrow> convertJoiDescription (Some description) (resolveOptions options) 0)"

definition resolveSchemaInput :: "jsvalue \<Rightarrow> error + jsvalue" where
  "resolveSchemaInput schema =
     (case schema of
        StringValue s \<Rightarrow> Inr (plainObject [(''$ref'', vstr s)])
      | ObjectValue ob \<Rightarrow>
          if isZodSchema schema then
            (case zodToOpenAPI (defOf ob) noOptions of
               Inl e \<Rightarrow> Inl e | Inr n \<Rightarrow> Inr (plainObject n))
          else if isJoiSchema schema then
            (case joiToOpenAPI ob noOptions of
               Inl e \<Rightarrow> Inl e | Inr n \<Rightarrow> Inr (plainObject n))
          else Inr schema
      | _ \<Rightarrow> Inr schema)"



section \<open>Names used in the statements\<close>

text \<open>Description values for the examples: no flags, and a description with a type and
  nothing else.\<close>

definition noFlags :: jflags where
  "noFlags = \<lparr> flag_presence = None, flag_default = JUndefined, flag_description = None,
               flag_only = False, flag_allowUnknown = None, flag_unknown = None \<rparr>"

definition joiBare :: "string \<Rightarrow> jdesc" where
  "joiBare t = JoiDescription t noFlags None None None None None None"

text \<open>The type tags that the \<open>switch\<close> of convertZodType names, and those that the
  \<open>switch\<close> of convertJoiDescription names.\<close>

definition zodTypeNames :: "string list" where
  "zodTypeNames =
     [''ZodString'', ''ZodNumber'', ''ZodBigInt'', ''ZodBoolean'', ''ZodNull'', ''ZodUndefined'',
      ''ZodLiteral'', ''ZodEnum'', ''ZodNativeEnum'', ''ZodObject'', ''ZodArray'', ''ZodTuple'',
      ''ZodUnion'', ''ZodDiscriminatedUnion'', ''ZodIntersection'', ''ZodOptional'',
      ''ZodNullable'', ''ZodDefault'', ''ZodCatch'', ''ZodBranded'', ''ZodReadonly'',
      ''ZodRecord'', ''ZodMap'', ''ZodSet'', ''ZodFunction'', ''ZodLazy'', ''ZodPromise'',
      ''ZodUnknown'', ''ZodAny'', ''ZodNever'', ''ZodVoid'', ''ZodDate'', ''ZodSymbol'',
      ''ZodPipeline'', ''ZodEffects'']"

definition joiTypes :: "string list" where
  "joiTypes = [''string'', ''number'', ''boolean'', ''object'', ''array'', ''alternatives'',
               ''date'', ''binary'', ''any'']"

text \<open>The names listed under \<open>required\<close> in a node; none when the node has no such
  property.\<close>

definition requiredNames :: "node \<Rightarrow> string list" where
  "requiredNames n =
     (case map_of n ''required'' of
        Some (VLit (JArr names)) \<Rightarrow> concat (map (\<lambda>v. case v of JStr s \<Rightarrow> [s] | _ \<Rightarrow> []) names)
      | _ \<Rightarrow> [])"

text \<open>Example inputs.\<close>

definition ex_nullableString :: zod where
  "ex_nullableString =
     withDescription ''nickname'' (withInnerType (zodBare ''ZodString'') (zodBare ''ZodNullable''))"

definition ex_brandedDescribed :: zod where
  "ex_brandedDescribed =
     withDescription ''User id'' (withType (zodBare ''ZodString'') (zodBare ''ZodBranded''))"

definition ex_optionalRedescribed :: zod where
  "ex_optionalRedescribed =
     withDescription ''new text''
       (withInnerType (withDescription ''old text'' (zodBare ''ZodString''))
          (zodBare ''ZodOptional''))"

definition ex_tuple :: zod where
  "ex_tuple = withItems [zodBare ''ZodString'', zodBare ''ZodBoolean'', zodBare ''ZodNull'']
                (zodBare ''ZodTuple'')"

definition ex_tupleRest :: zod where
  "ex_tupleRest = withRest (zodBare ''ZodBoolean'') (withItems [zodBare ''ZodString''] (zodBare ''ZodTuple''))"

definition ex_ordered :: jdesc where
  "ex_ordered = JoiDescription ''array'' noFlags None None None
                  (Some [joiBare ''string'', joiBare ''boolean'']) None None"

definition ex_nullableAny :: jdesc where
  "ex_nullableAny = JoiDescription ''any'' noFlags None None None None None (Some [JNull])"

definition ex_object :: zod where
  "ex_object =
     withShape [(''a'', zodBare ''ZodString''),
                (''b'', withInnerType (zodBare ''ZodString'') (zodBare ''ZodOptional'')),
                (''c'', withDefaultValue (JStr ''user'')
                          (withInnerType (zodBare ''ZodString'') (zodBare ''ZodDefault'')))]
       (zodBare ''ZodObject'')"

definition ex_keys :: jdesc where
  "ex_keys =
     JoiDescription ''object'' noFlags None
       (Some [(''a'', JoiDescription ''string'' (noFlags\<lparr>flag_presence := Some ''required''\<rparr>)
                        None None None None None None),
              (''b'', JoiDescription ''string'' (noFlags\<lparr>flag_presence := Some ''optional''\<rparr>)
                        None None None None None None),
              (''c'', joiBare ''string'')])
       None None None None"


text \<open>A node with every field named \<open>k\<close> removed, in the node itself and in every
  sub-schema below it (\<open>properties\<close> are entered by their values: a property that is
  named \<open>k\<close> stays). Literal values are not schemas and are left as they are.\<close>

fun withoutFieldV :: "string \<Rightarrow> fval \<Rightarrow> fval" where
  "withoutFieldV k (VLit j) = VLit j"
| "withoutFieldV k (VNode n) =
     VNode (AList.delete k (map (\<lambda>(f, v). (f, withoutFieldV k v)) n))"
| "withoutFieldV k (VNodes ns) =
     VNodes (map (\<lambda>n. AList.delete k (map (\<lambda>(f, v). (f, withoutFieldV k v)) n)) ns)"
| "withoutFieldV k (VProps ps) =
     VProps (map (\<lambda>(p, n). (p, AList.delete k (map (\<lambda>(f, v). (f, withoutFieldV k v)) n))) ps)"

definition withoutField :: "string \<Rightarrow> node \<Rightarrow> node" where
  "withoutField k n = AList.delete k (map (\<lambda>(f, v). (f, withoutFieldV k v)) n)"

text \<open>\<open>opts'\<close> is \<open>opts\<close> with the option that governs the field \<open>k\<close> switched off.\<close>

definition toggledOff :: "string \<Rightarrow> opts \<Rightarrow> opts \<Rightarrow> bool" where
  "toggledOff k opts opts' \<longleftrightarrow>
     (k = ''default'' \<and> opts' = opts\<lparr>includeDefaults := False\<rparr>)
     \<or> (k = ''description'' \<and> opts' = opts\<lparr>includeDescriptions := False\<rparr>)"

text \<open>Two runs compared: whenever the first returns a node, the second returns that node
  under \<open>f\<close>. Nothing is said when the first run raises.\<close>

definition yields :: "('a \<Rightarrow> 'b) \<Rightarrow> error + 'a \<Rightarrow> error + 'b \<Rightarrow> bool" where
  "yields f r r' \<longleftrightarrow> (case r of Inl e \<Rightarrow> True | Inr n \<Rightarrow> r' = Inr (f n))"

text \<open>A node of literal fields, none of them named \<open>k\<close>.\<close>

definition plainNode :: "string \<Rightarrow> node \<Rightarrow> bool" where
  "plainNode k n \<longleftrightarrow> (\<forall>(f, v) \<in> set n. f \<noteq> k \<and> (\<exists>j. v = VLit j))"

text \<open>A node that has fields, all of them named \<open>k\<close>: removing the field \<open>k\<close> leaves the
  empty node.\<close>

definition emptiedBy :: "string \<Rightarrow> node \<Rightarrow> bool" where
  "emptiedBy k combined \<longleftrightarrow> length combined > 0 \<and> length (withoutField k combined) = 0"

lemma size_in_list: "x \<in> set xs \<Longrightarrow> f x \<le> size_list f xs"
  by (induction xs) auto

text \<open>
  \<open>wrapsKept k opts depth desc\<close>: in the conversion of \<open>desc\<close> at \<open>depth\<close> under \<open>opts\<close>, no
  description that reaches the step \<open>Apply nullable\<close> with \<open>null\<close> allowed has a
  \<open>combined\<close> node that the removal of the field \<open>k\<close> empties. The recursion visits the
  descriptions that convertJoiDescription visits, each at the depth of its conversion:
  nothing past \<open>maxDepth\<close> and nothing below an enum; the keys and the value of the
  first pattern rule of an object; the ordered slots of an array, or its items when it
  has no ordered slot; the schemas of the matches of an alternatives.
\<close>

function wrapsKept :: "string \<Rightarrow> opts \<Rightarrow> int \<Rightarrow> jdesc \<Rightarrow> bool" where
  "wrapsKept k opts depth desc \<longleftrightarrow>
     (if depth > maxDepth opts \<or> isJoiEnum desc then True
      else
        (hasNullAllow desc \<and> \<not> flag_only (desc_flags desc) \<longrightarrow>
           (case joiTypeSchema desc opts depth of
              Inl e \<Rightarrow> True
            | Inr typeSchema \<Rightarrow> \<not> emptiedBy k (spread (joiMetadata desc opts) typeSchema)))
        \<and> (if desc_type desc = ''object'' then
             (\<forall>e \<in> set (orEmpty (desc_keys desc)). wrapsKept k opts (depth + 1) (snd e))
             \<and> (case patternValue desc of
                  None \<Rightarrow> True
                | Some valueDesc \<Rightarrow> wrapsKept k opts (depth + 1) valueDesc)
           else if desc_type desc = ''array'' then
             (if length (orEmpty (desc_ordered desc)) > 0
              then \<forall>i \<in> set (orEmpty (desc_ordered desc)). wrapsKept k opts (depth + 1) i
              else \<forall>i \<in> set (orEmpty (desc_items desc)). wrapsKept k opts (depth + 1) i)
           else if desc_type desc = ''alternatives'' then
             (\<forall>m \<in> set (orEmpty (desc_matches desc)).
                case match_schema m of
                  None \<Rightarrow> True
                | Some schema \<Rightarrow> wrapsKept k opts (depth + 1) schema)
           else True))"
  by pat_completeness auto

termination
proof (relation "measure (\<lambda>(k, opts, depth, desc). size desc)", goal_cases)
  case 1
  show ?case by simp
next
  case (2 k opts depth desc e)
  from size_in_list [OF 2(3), of "size_prod (\<lambda>_. 0) size"] size_desc_lists(3) [of desc]
  show ?case by (cases e) auto
next
  case (3 k opts depth desc valueDesc)
  then show ?case by (simp add: size_patternValue)
next
  case (4 k opts depth desc i)
  from size_in_list [OF 4(5), of size] size_desc_lists(1) [of desc] show ?case by simp
next
  case (5 k opts depth desc i)
  from size_in_list [OF 5(5), of size] size_desc_lists(2) [of desc] show ?case by simp
next
  case (6 k opts depth desc m schema)
  from size_in_list [OF 6(5), of "size_jmatch size"] size_desc_lists(4) [of desc]
       size_match_schema [OF 6(6), of 0]
  show ?case by simp
qed

declare wrapsKept.simps [simp del]

definition ex_nullableNote :: jdesc where
  "ex_nullableNote =
     JoiDescription ''any'' (noFlags\<lparr>flag_description := Some ''note''\<rparr>)
       None None None None None (Some [JNull])"

text \<open>\<open>Joi.alternatives().try(Joi.string(), Joi.number()).allow(null).description('id')
  .default('none')\<close>, as \<open>describe()\<close> returns it.\<close>

definition ex_nullableEither :: jdesc where
  "ex_nullableEither =
     JoiDescription ''alternatives''
       (noFlags\<lparr>flag_description := Some ''id'', flag_default := JStr ''none''\<rparr>)
       None None None None
       (Some [JoiMatch (Some (joiBare ''string'')), JoiMatch (Some (joiBare ''number''))])
       (Some [JNull])"

text \<open>\<open>z.object({ name: z.string().describe('login'), role: z.string().default('user') })
  .describe('account')\<close>, and the same object with a \<open>defaultValue\<close> function that
  throws.\<close>

definition ex_account :: zod where
  "ex_account =
     withDescription ''account''
       (withShape [(''name'', withDescription ''login'' (zodBare ''ZodString'')),
                   (''role'', withDefaultValue (JStr ''user'')
                                (withInnerType (zodBare ''ZodString'') (zodBare ''ZodDefault'')))]
          (zodBare ''ZodObject''))"

definition ex_throwingDefault :: zod where
  "ex_throwingDefault =
     withShape [(''role'', withThrowingDefault
                             (withInnerType (zodBare ''ZodString'') (zodBare ''ZodDefault'')))]
       (zodBare ''ZodObject'')"


section \<open>Properties\<close>

subsection \<open>Basic facts\<close>

lemma spread_Nil [simp]: "spread a [] = a"
  by (simp add: spread_def)

lemma spread_Cons [simp]: "spread a ((k, v) # b) = spread (AList.update k v a) b"
  by (simp add: spread_def)

lemmas eval_zod =
  convertZodType.simps zodBare_def typeNameOf_def zodDescription_def defaultOpts_def
  convertZodString_def orEmpty_def scalarType_def nullNode_def

lemmas eval_joi =
  convertJoiDescription.simps joiBare_def noFlags_def defaultOpts_def isJoiEnum_def orEmpty_def
  joiMetadata_def applyNullable_def hasNullAllow_def scalarType_def nullNode_def joiEnum_def
  convertString_def convertBoolean_def

text \<open>A description that is there is always converted: Dialect B raises nothing.\<close>

lemmas joi_induct = convertJoiDescription_convertJoiDescriptions_convertObject_convertObject_fields_convertArray_convertAlternatives_convertAlternatives_matches.induct

lemma joi_total:
  shows "d \<noteq> None \<longrightarrow> (\<exists>n. convertJoiDescription d opts depth = Inr n)"
    and "\<exists>ns. convertJoiDescriptions items opts depth = Inr ns"
    and "\<exists>n. convertObject desc opts depth = Inr n"
    and "\<exists>r. convertObject_fields entries opts depth acc = Inr r"
    and "\<exists>n. convertArray desc' opts depth = Inr n"
    and "\<exists>n. convertAlternatives desc'' opts depth = Inr n"
    and "\<exists>ns. convertAlternatives_matches matches opts depth = Inr ns"
proof (induct d opts depth and items opts depth and desc opts depth and entries opts depth acc
         and desc' opts depth and desc'' opts depth and matches opts depth rule: joi_induct)
  case (1 d opts depth)
  show ?case
  proof (cases "depth > maxDepth opts")
    case True
    then show ?thesis by (simp add: convertJoiDescription.simps)
  next
    case False
    show ?thesis
    proof
      assume "d \<noteq> None"
      then obtain desc where d: "d = Some desc" by auto
      show "\<exists>n. convertJoiDescription d opts depth = Inr n"
        using False d "1.hyps" [OF False d]
        by (auto simp: convertJoiDescription.simps)
    qed
  qed
next
  case (2 opts depth)
  show ?case by simp
next
  case (3 item items opts depth)
  then show ?case by auto
next
  case (4 desc opts depth)
  from 4(1) obtain r where
    r: "convertObject_fields (orEmpty (desc_keys desc)) opts depth ([], []) = Inr r" by auto
  show ?case
  proof (cases "patternValue desc")
    case None
    with r show ?thesis by (simp add: convertObject.simps)
  next
    case (Some v)
    from 4(2) [OF r Some] obtain n where
      "convertJoiDescription (Some v) opts (depth + 1) = Inr n" by auto
    with r Some show ?thesis by (simp add: convertObject.simps)
  qed
next
  case (5 opts depth acc)
  show ?case by simp
next
  case (6 key fieldDesc entries opts depth acc)
  then show ?case by auto
next
  case (7 desc opts depth)
  then show ?case by (auto simp: convertArray.simps)
next
  case (8 desc opts depth)
  then show ?case by (auto simp: convertAlternatives.simps)
next
  case (9 opts depth)
  show ?case by simp
next
  case (10 m matches opts depth)
  show ?case
  proof (cases "match_schema m")
    case None
    with 10(1) show ?thesis by simp
  next
    case (Some x)
    from 10(2) [OF Some] obtain n where
      n: "convertJoiDescription (Some x) opts (depth + 1) = Inr n" by auto
    from 10(3) [OF Some n] obtain ns where
      "convertAlternatives_matches matches opts depth = Inr ns" by auto
    with Some n show ?thesis by simp
  qed
qed


subsection \<open>The pattern of a string schema\<close>

lemma convertZodString_check_pattern:
  assumes "convertZodString_check check result = Inr result'"
  shows "isPatternCheck check \<Longrightarrow>
           (\<exists>p. checkPattern check = Inr p \<and> map_of result' ''pattern'' = Some (vstr p))"
    and "\<not> isPatternCheck check \<Longrightarrow> map_of result' ''pattern'' = map_of result ''pattern''"
  using assms
  by (auto simp: convertZodString_check_def isPatternCheck_def Let_def update_conv'
           split: if_splits sum.splits)

lemma convertZodString_loop_pattern:
  assumes "convertZodString_loop checks result = Inr n"
  shows "map_of n ''pattern'' =
           (case filter isPatternCheck checks of
              [] \<Rightarrow> map_of result ''pattern''
            | c # cs \<Rightarrow> (case checkPattern (last (c # cs)) of
                          Inl e \<Rightarrow> None | Inr p \<Rightarrow> Some (vstr p)))"
  using assms
proof (induction checks arbitrary: result)
  case Nil
  then show ?case by simp
next
  case (Cons check checks)
  from Cons.prems obtain result' where
    step: "convertZodString_check check result = Inr result'" and
    rest: "convertZodString_loop checks result' = Inr n"
    by (auto split: sum.splits)
  note ih = Cons.IH [OF rest]
  show ?case
  proof (cases "isPatternCheck check")
    case True
    with convertZodString_check_pattern(1) [OF step] obtain p where
      p: "checkPattern check = Inr p" "map_of result' ''pattern'' = Some (vstr p)"
      by blast
    with True ih show ?thesis
      by (cases "filter isPatternCheck checks") simp_all
  next
    case False
    with convertZodString_check_pattern(2) [OF step] ih show ?thesis
      by (simp split: list.splits)
  qed
qed

lemma convertZodString_loop_total:
  assumes "\<forall>c \<in> set checks. isPatternCheck c \<longrightarrow> (\<exists>p. checkPattern c = Inr p)"
  shows "\<exists>n. convertZodString_loop checks result = Inr n"
  using assms
proof (induction checks arbitrary: result)
  case Nil
  then show ?case by simp
next
  case (Cons check checks)
  have "\<exists>r. convertZodString_check check result = Inr r"
    using Cons.prems
    by (auto simp: convertZodString_check_def isPatternCheck_def Let_def split: sum.splits)
  with Cons show ?case by auto
qed

text \<open>
  C10. In the Dialect-A string converter every pattern-producing check (regex,
  startsWith, endsWith, includes) assigns the one \<open>pattern\<close> field. So whenever the
  checks of a string schema are well formed (a regex check carries its regular
  expression, the other three a string) the conversion returns a node, and if at least
  one pattern-producing check is present, the \<open>pattern\<close> of that node is the pattern of
  the last such check in the list alone: earlier patterns are overwritten.
\<close>

theorem convertZodString_pattern_is_last:
  assumes "cs = filter isPatternCheck (orEmpty (def_checks schema))"
    and "\<forall>c \<in> set cs. \<exists>p. checkPattern c = Inr p"
    and "cs \<noteq> []"
  shows "\<exists>n p. convertZodString schema opts = Inr n
           \<and> checkPattern (last cs) = Inr p
           \<and> map_of n ''pattern'' = Some (vstr p)"
proof -
  from assms(1,2) obtain n where
    n: "convertZodString_loop (orEmpty (def_checks schema)) [(''type'', vstr ''string'')] = Inr n"
    using convertZodString_loop_total [of "orEmpty (def_checks schema)"] by auto
  from assms(3) have "last cs \<in> set cs" by simp
  with assms(2) obtain p where p: "checkPattern (last cs) = Inr p" by blast
  from assms(3) obtain c cs' where cs: "cs = c # cs'" by (cases cs) auto
  from convertZodString_loop_pattern [OF n] p
  have "map_of n ''pattern'' = Some (vstr p)"
    unfolding assms(1) [symmetric] cs by simp
  with n p show ?thesis by (auto simp: convertZodString_def)
qed

theorem convertZodString_pattern_is_last_witness:
  "\<exists>n. convertZodString
          (withChecks [ZodCheck ''startsWith'' (JStr ''a.'') None False,
                       ZodCheck ''min'' (JNum 2) None False,
                       ZodCheck ''regex'' JUndefined (Some ''^[a-z]+$'') False,
                       ZodCheck ''email'' JUndefined None False] (zodBare ''ZodString''))
          defaultOpts = Inr n
       \<and> map_of n ''pattern'' = Some (vstr ''^[a-z]+$'')"
proof -
  let ?c1 = "ZodCheck ''startsWith'' (JStr ''a.'') None False"
  let ?c2 = "ZodCheck ''min'' (JNum 2) None False"
  let ?c3 = "ZodCheck ''regex'' JUndefined (Some ''^[a-z]+$'') False"
  let ?c4 = "ZodCheck ''email'' JUndefined None False"
  let ?s = "withChecks [?c1, ?c2, ?c3, ?c4] (zodBare ''ZodString'')"
  have h1: "[?c1, ?c3] = filter isPatternCheck (orEmpty (def_checks ?s))"
    by (simp add: zodBare_def orEmpty_def isPatternCheck_def)
  have h2: "\<forall>c \<in> set [?c1, ?c3]. \<exists>p. checkPattern c = Inr p"
    by (simp add: checkPattern_def escapeRegexValue_def)
  have h3: "[?c1, ?c3] \<noteq> []" by simp
  from convertZodString_pattern_is_last [OF h1 h2 h3, of defaultOpts]
  show ?thesis by (simp add: checkPattern_def)
qed

subsection \<open>The depth guard\<close>

text \<open>
  C2. For every input value (also \<open>undefined\<close>, which is \<open>None\<close>), every options record
  and every depth strictly greater than \<open>maxDepth\<close>, convertZodType and
  convertJoiDescription return the empty node \<open>{}\<close>; the input is not looked at.
\<close>

theorem depth_guard:
  assumes "depth > maxDepth opts"
  shows "convertZodType schema opts depth = Inr [] \<and> convertJoiDescription desc opts depth = Inr []"
  using assms by (simp add: convertZodType.simps convertJoiDescription.simps)

theorem depth_guard_witness:
  "convertZodType None defaultOpts 21 = Inr []
   \<and> convertZodType (Some (zodBare ''ZodString'')) (defaultOpts\<lparr>maxDepth := - 1\<rparr>) 0 = Inr []
   \<and> convertJoiDescription None defaultOpts 21 = Inr []
   \<and> convertJoiDescription (Some (joiBare ''string'')) (defaultOpts\<lparr>maxDepth := - 1\<rparr>) 0 = Inr []"
proof -
  have h1: "21 > maxDepth defaultOpts" by (simp add: defaultOpts_def)
  have h2: "0 > maxDepth (defaultOpts\<lparr>maxDepth := - 1\<rparr>)" by simp
  from depth_guard [OF h1, of None None]
       depth_guard [OF h2, of "Some (zodBare ''ZodString'')" "Some (joiBare ''string'')"]
  show ?thesis by simp
qed

subsection \<open>Unrecognized type tags\<close>

lemma zod_unrecognized:
  assumes "typeNameOf schema \<notin> set zodTypeNames"
  shows "convertZodType (Some schema) opts depth =
           Inr (if depth > maxDepth opts then [] else zodDescription schema opts)"
  using assms by (simp add: convertZodType.simps zodTypeNames_def)

lemma applyNullable_metadata:
  "applyNullable desc (joiMetadata desc opts) =
     (if hasNullAllow desc \<and> \<not> flag_only (desc_flags desc) \<and> joiMetadata desc opts \<noteq> []
      then [(''anyOf'', VNodes [joiMetadata desc opts, nullNode])]
      else joiMetadata desc opts)"
  by (auto simp: applyNullable_def joiMetadata_def scalarType_def Let_def split: option.splits)

lemma joi_unrecognized:
  assumes "desc_type desc \<notin> set joiTypes"
  shows "convertJoiDescription (Some desc) opts depth =
           Inr (if depth > maxDepth opts then []
                else if isJoiEnum desc then joiEnum desc (joiMetadata desc opts)
                else applyNullable desc (joiMetadata desc opts))"
  using assms by (simp add: convertJoiDescription.simps joiTypes_def)

text \<open>
  C4, as the code has it. An input whose type tag is not recognized never raises an
  error, and past the depth bound the result is \<open>{}\<close> in both dialects. Within the
  depth bound, in Dialect A the result is exactly the collected description. In
  Dialect B the enum detection and the nullable step run whatever the type is: the
  result is the collected metadata alone when the description is neither an enum nor
  allows \<open>null\<close>; an enum description yields the metadata and \<open>enum\<close>; a description
  that allows \<open>null\<close> and has metadata yields \<open>anyOf: [metadata, {type: 'null'}]\<close>.
\<close>

theorem unrecognized_tag_fallback:
  "(typeNameOf schema \<notin> set zodTypeNames \<longrightarrow>
      convertZodType (Some schema) opts depth =
        Inr (if depth > maxDepth opts then [] else zodDescription schema opts))
   \<and> (desc_type desc \<notin> set joiTypes \<longrightarrow>
      convertJoiDescription (Some desc) opts depth =
        Inr (if depth > maxDepth opts then []
             else if isJoiEnum desc then
               spread (joiMetadata desc opts) [(''enum'', VLit (JArr (orEmpty (desc_allow desc))))]
             else if hasNullAllow desc \<and> joiMetadata desc opts \<noteq> [] then
               [(''anyOf'', VNodes [joiMetadata desc opts, nullNode])]
             else joiMetadata desc opts))"
proof (intro conjI impI)
  assume "typeNameOf schema \<notin> set zodTypeNames"
  then show "convertZodType (Some schema) opts depth =
        Inr (if depth > maxDepth opts then [] else zodDescription schema opts)"
    by (rule zod_unrecognized)
next
  assume a: "desc_type desc \<notin> set joiTypes"
  have f: "JNull \<notin> set xs \<Longrightarrow> filter (\<lambda>v. v \<noteq> JNull) xs = xs" for xs :: "jsval list"
    by (induction xs) auto
  have e: "joiEnum desc r = spread r [(''enum'', VLit (JArr (orEmpty (desc_allow desc))))]" for r
    by (simp add: joiEnum_def Let_def f)
  have n: "\<not> isJoiEnum desc \<Longrightarrow> hasNullAllow desc \<Longrightarrow> \<not> flag_only (desc_flags desc)"
    by (auto simp: isJoiEnum_def hasNullAllow_def)
  show "convertJoiDescription (Some desc) opts depth =
        Inr (if depth > maxDepth opts then []
             else if isJoiEnum desc then
               spread (joiMetadata desc opts) [(''enum'', VLit (JArr (orEmpty (desc_allow desc))))]
             else if hasNullAllow desc \<and> joiMetadata desc opts \<noteq> [] then
               [(''anyOf'', VNodes [joiMetadata desc opts, nullNode])]
             else joiMetadata desc opts)"
    using n by (auto simp: joi_unrecognized [OF a] e applyNullable_metadata)
qed

theorem unrecognized_tag_fallback_witness:
  "convertZodType (Some (withDescription ''later'' (zodBare ''ZodTemplateLiteral''))) defaultOpts 0
     = Inr [(''description'', vstr ''later'')]
   \<and> convertJoiDescription
        (Some (JoiDescription ''symbol'' (noFlags\<lparr>flag_description := Some ''a symbol''\<rparr>)
                 None None None None None None)) defaultOpts 0
     = Inr [(''description'', vstr ''a symbol'')]"
proof -
  let ?z = "withDescription ''later'' (zodBare ''ZodTemplateLiteral'')"
  let ?j = "JoiDescription ''symbol'' (noFlags\<lparr>flag_description := Some ''a symbol''\<rparr>)
              None None None None None None"
  have h1: "typeNameOf ?z \<notin> set zodTypeNames"
    by (simp add: zodBare_def typeNameOf_def zodTypeNames_def)
  have h2: "desc_type ?j \<notin> set joiTypes"
    by (simp add: joiTypes_def)
  from unrecognized_tag_fallback [of ?z defaultOpts 0 ?j] h1 h2
  show ?thesis
    by (simp add: zodBare_def zodDescription_def defaultOpts_def joiMetadata_def noFlags_def
          isJoiEnum_def hasNullAllow_def orEmpty_def)
qed

text \<open>The claim as stated fails in Dialect B: a nullable \<open>link\<close> with a description comes
  out as an \<open>anyOf\<close> node, and a \<open>symbol\<close> restricted to listed values as an \<open>enum\<close> node;
  neither is a node of metadata fields only.\<close>

theorem unrecognized_tag_counterexample:
  "desc_type (JoiDescription ''link'' (noFlags\<lparr>flag_description := Some ''parent''\<rparr>)
                None None None None None (Some [JNull])) \<notin> set joiTypes
   \<and> convertJoiDescription
        (Some (JoiDescription ''link'' (noFlags\<lparr>flag_description := Some ''parent''\<rparr>)
                 None None None None None (Some [JNull]))) defaultOpts 0
     = Inr [(''anyOf'', VNodes [[(''description'', vstr ''parent'')], [(''type'', vstr ''null'')]])]
   \<and> convertJoiDescription
        (Some (JoiDescription ''symbol'' (noFlags\<lparr>flag_only := True\<rparr>)
                 None None None None None (Some [JStr ''a'']))) defaultOpts 0
     = Inr [(''enum'', VLit (JArr [JStr ''a'']))]"
  by (simp add: convertJoiDescription.simps joiTypes_def defaultOpts_def isJoiEnum_def noFlags_def
        orEmpty_def joiMetadata_def applyNullable_def hasNullAllow_def scalarType_def nullNode_def
        joiEnum_def)

subsection \<open>Nullable-of\<close>

text \<open>
  C3, as the code has it. For a ZodNullable schema within the depth bound whose inner
  schema converts to \<open>inner\<close>: if \<open>inner\<close> has a single non-empty string \<open>type\<close> \<open>t\<close>, the
  output is \<open>{...result, ...inner, type: [t, 'null']}\<close>, where \<open>result\<close> holds the
  description collected from the wrapper itself; otherwise it is
  \<open>{...result, anyOf: [inner, {type: 'null'}]}\<close>.
\<close>

theorem nullable_of:
  assumes "typeNameOf schema = ''ZodNullable''"
    and "depth \<le> maxDepth opts"
    and "convertZodType (def_innerType schema) opts (depth + 1) = Inr inner"
  shows "convertZodType (Some schema) opts depth =
      Inr (case scalarType inner of
             Some t \<Rightarrow>
               AList.update ''type'' (VLit (JArr [JStr t, JStr ''null'']))
                 (spread (zodDescription schema opts) inner)
           | None \<Rightarrow>
               spread (zodDescription schema opts) [(''anyOf'', VNodes [inner, nullNode])])"
  using assms by (simp add: convertZodType.simps split: option.splits)

theorem nullable_of_witness:
  "convertZodType (Some ex_nullableString) defaultOpts 0 =
     Inr [(''description'', vstr ''nickname''),
          (''type'', VLit (JArr [JStr ''string'', JStr ''null'']))]"
proof -
  have h1: "typeNameOf ex_nullableString = ''ZodNullable''"
    by (simp add: ex_nullableString_def zodBare_def typeNameOf_def)
  have h2: "0 \<le> maxDepth defaultOpts" by (simp add: defaultOpts_def)
  have h3: "convertZodType (def_innerType ex_nullableString) defaultOpts (0 + 1) =
              Inr [(''type'', vstr ''string'')]"
    by (simp add: ex_nullableString_def eval_zod)
  from nullable_of [OF h1 h2 h3] show ?thesis
    by (simp add: ex_nullableString_def zodBare_def zodDescription_def defaultOpts_def
          scalarType_def)
qed

text \<open>The claim as stated fails when the wrapper carries a description of its own, as in
  \<open>z.string().nullable().describe('nickname')\<close>: the output is not the inner result with
  its type replaced, it has the description as well.\<close>

theorem nullable_of_counterexample:
  "convertZodType (def_innerType ex_nullableString) defaultOpts 1 = Inr [(''type'', vstr ''string'')]
   \<and> scalarType [(''type'', vstr ''string'')] = Some ''string''
   \<and> convertZodType (Some ex_nullableString) defaultOpts 0 \<noteq>
       Inr (AList.update ''type'' (VLit (JArr [JStr ''string'', JStr ''null'']))
              [(''type'', vstr ''string'')])"
  by (simp add: ex_nullableString_def eval_zod)

subsection \<open>The description of a wrapper\<close>

text \<open>
  C8. The description collected at the start of convertZodType is meant to reach the
  returned node. The branches for ZodCatch, ZodBranded, ZodPipeline and ZodEffects return
  the conversion of the inner schema and leave \<open>result\<close> out: the description of
  \<open>z.string().brand().describe('User id')\<close> is lost. The branches that spread \<open>inner\<close>
  over \<open>result\<close> let a description of the inner schema replace the one of the wrapper.
\<close>

theorem description_dropped_by_branded:
  "zodDescription ex_brandedDescribed defaultOpts = [(''description'', vstr ''User id'')]
   \<and> convertZodType (Some ex_brandedDescribed) defaultOpts 0 = Inr [(''type'', vstr ''string'')]
   \<and> zodDescription ex_optionalRedescribed defaultOpts = [(''description'', vstr ''new text'')]
   \<and> convertZodType (Some ex_optionalRedescribed) defaultOpts 0 =
       Inr [(''description'', vstr ''old text''), (''type'', vstr ''string'')]"
  by (simp add: ex_brandedDescribed_def ex_optionalRedescribed_def eval_zod)

subsection \<open>The reference resolver\<close>

text \<open>
  C9. resolveSchemaInput turns a string \<open>s\<close> into exactly \<open>{$ref: s}\<close>, and returns an input
  that is neither a string nor recognized as a Zod or Joi schema as it is.
\<close>

theorem resolveSchemaInput_string_and_passthrough:
  "resolveSchemaInput (StringValue s) = Inr (plainObject [(''$ref'', vstr s)])
   \<and> ((\<forall>t. v \<noteq> StringValue t) \<and> \<not> isZodSchema v \<and> \<not> isJoiSchema v \<longrightarrow>
        resolveSchemaInput v = Inr v)"
  by (cases v) (simp_all add: resolveSchemaInput_def)

theorem resolveSchemaInput_string_and_passthrough_witness:
  "resolveSchemaInput (StringValue ''#/components/schemas/User'') =
     Inr (plainObject [(''$ref'', vstr ''#/components/schemas/User'')])
   \<and> resolveSchemaInput (plainObject [(''type'', vstr ''string'')]) =
     Inr (plainObject [(''type'', vstr ''string'')])"
proof -
  let ?v = "plainObject [(''type'', vstr ''string'')]"
  have h: "(\<forall>t. ?v \<noteq> StringValue t) \<and> \<not> isZodSchema ?v \<and> \<not> isJoiSchema ?v"
    by (simp add: plainObject_def isZodSchema_def isJoiSchema_def)
  from resolveSchemaInput_string_and_passthrough [of "''#/components/schemas/User''" ?v] h
  show ?thesis by simp
qed

subsection \<open>Tuples\<close>

lemma convertZodTypes_list_all2:
  "convertZodTypes items opts depth = Inr ns \<Longrightarrow>
     list_all2 (\<lambda>item n. convertZodType (Some item) opts depth = Inr n) items ns"
  by (induction items arbitrary: ns) (auto split: sum.splits)

lemma convertJoiDescriptions_list_all2:
  "convertJoiDescriptions items opts depth = Inr ns \<Longrightarrow>
     list_all2 (\<lambda>item n. convertJoiDescription (Some item) opts depth = Inr n) items ns"
  by (induction items arbitrary: ns) (auto split: sum.splits)

text \<open>
  C5, as the code has it. A Dialect-A tuple with \<open>n\<close> slots converts to
  \<open>prefixItems\<close> of the \<open>n\<close> converted slots and \<open>minItems: n\<close>, with \<open>items: false\<close> and
  \<open>maxItems: n\<close> when there is no rest element, and with \<open>items\<close> the conversion of the
  rest element and no \<open>maxItems\<close> when there is one. A Dialect-B array whose \<open>ordered\<close>
  list is not empty converts to \<open>prefixItems\<close> of the converted slots, \<open>items: false\<close> and
  \<open>minItems\<close>, \<open>maxItems\<close> equal to their number.
\<close>

theorem tuple_conversion:
  "(convertZodTuple schema opts depth = Inr n \<longrightarrow>
      (\<exists>prefixItems.
         list_all2 (\<lambda>item p. convertZodType (Some item) opts (depth + 1) = Inr p)
           (orEmpty (def_items schema)) prefixItems
         \<and> (case def_rest schema of
              None \<Rightarrow>
                n = [(''type'', vstr ''array''), (''prefixItems'', VNodes prefixItems),
                     (''items'', vbool False),
                     (''minItems'', VLit (JNum (int (length (orEmpty (def_items schema)))))),
                     (''maxItems'', VLit (JNum (int (length (orEmpty (def_items schema))))))]
            | Some rest \<Rightarrow>
                (\<exists>i. convertZodType (Some rest) opts (depth + 1) = Inr i
                   \<and> n = [(''type'', vstr ''array''), (''prefixItems'', VNodes prefixItems),
                          (''items'', VNode i),
                          (''minItems'', VLit (JNum (int (length (orEmpty (def_items schema))))))]))))
   \<and> (desc_ordered desc = Some ordered \<and> ordered \<noteq> [] \<longrightarrow>
      (\<exists>prefixItems.
         list_all2 (\<lambda>item p. convertJoiDescription (Some item) opts (depth + 1) = Inr p)
           ordered prefixItems
         \<and> convertArray desc opts depth =
             Inr [(''type'', vstr ''array''), (''prefixItems'', VNodes prefixItems),
                  (''items'', vbool False),
                  (''minItems'', VLit (JNum (int (length ordered)))),
                  (''maxItems'', VLit (JNum (int (length ordered))))]))"
proof (intro conjI impI)
  assume a: "convertZodTuple schema opts depth = Inr n"
  then obtain prefixItems where
    p: "convertZodTypes (orEmpty (def_items schema)) opts (depth + 1) = Inr prefixItems"
    by (auto simp: convertZodTuple.simps split: sum.splits)
  from a p have
    "case def_rest schema of
       None \<Rightarrow>
         n = [(''type'', vstr ''array''), (''prefixItems'', VNodes prefixItems),
              (''items'', vbool False),
              (''minItems'', VLit (JNum (int (length (orEmpty (def_items schema)))))),
              (''maxItems'', VLit (JNum (int (length (orEmpty (def_items schema))))))]
     | Some rest \<Rightarrow>
         (\<exists>i. convertZodType (Some rest) opts (depth + 1) = Inr i
            \<and> n = [(''type'', vstr ''array''), (''prefixItems'', VNodes prefixItems),
                   (''items'', VNode i),
                   (''minItems'', VLit (JNum (int (length (orEmpty (def_items schema))))))])"
    by (auto simp: convertZodTuple.simps zodTupleBounds_def Let_def split: option.splits sum.splits)
  with convertZodTypes_list_all2 [OF p]
  show "\<exists>prefixItems.
         list_all2 (\<lambda>item p. convertZodType (Some item) opts (depth + 1) = Inr p)
           (orEmpty (def_items schema)) prefixItems
         \<and> (case def_rest schema of
              None \<Rightarrow>
                n = [(''type'', vstr ''array''), (''prefixItems'', VNodes prefixItems),
                     (''items'', vbool False),
                     (''minItems'', VLit (JNum (int (length (orEmpty (def_items schema)))))),
                     (''maxItems'', VLit (JNum (int (length (orEmpty (def_items schema))))))]
            | Some rest \<Rightarrow>
                (\<exists>i. convertZodType (Some rest) opts (depth + 1) = Inr i
                   \<and> n = [(''type'', vstr ''array''), (''prefixItems'', VNodes prefixItems),
                          (''items'', VNode i),
                          (''minItems'', VLit (JNum (int (length (orEmpty (def_items schema))))))]))"
    by blast
next
  assume a: "desc_ordered desc = Some ordered \<and> ordered \<noteq> []"
  from joi_total(2) obtain prefixItems where
    p: "convertJoiDescriptions ordered opts (depth + 1) = Inr prefixItems" by blast
  from a p have "convertArray desc opts depth =
             Inr [(''type'', vstr ''array''), (''prefixItems'', VNodes prefixItems),
                  (''items'', vbool False),
                  (''minItems'', VLit (JNum (int (length ordered)))),
                  (''maxItems'', VLit (JNum (int (length ordered))))]"
    by (simp add: convertArray.simps orEmpty_def)
  with convertJoiDescriptions_list_all2 [OF p]
  show "\<exists>prefixItems.
         list_all2 (\<lambda>item p. convertJoiDescription (Some item) opts (depth + 1) = Inr p)
           ordered prefixItems
         \<and> convertArray desc opts depth =
             Inr [(''type'', vstr ''array''), (''prefixItems'', VNodes prefixItems),
                  (''items'', vbool False),
                  (''minItems'', VLit (JNum (int (length ordered)))),
                  (''maxItems'', VLit (JNum (int (length ordered))))]"
    by blast
qed

theorem tuple_conversion_witness:
  "convertZodTuple ex_tuple defaultOpts 0 =
     Inr [(''type'', vstr ''array''),
          (''prefixItems'', VNodes [[(''type'', vstr ''string'')], [(''type'', vstr ''boolean'')],
                                    [(''type'', vstr ''null'')]]),
          (''items'', vbool False), (''minItems'', VLit (JNum 3)), (''maxItems'', VLit (JNum 3))]
   \<and> convertArray ex_ordered defaultOpts 0 =
     Inr [(''type'', vstr ''array''),
          (''prefixItems'', VNodes [[(''type'', vstr ''string'')], [(''type'', vstr ''boolean'')]]),
          (''items'', vbool False), (''minItems'', VLit (JNum 2)), (''maxItems'', VLit (JNum 2))]"
proof -
  let ?n = "[(''type'', vstr ''array''),
          (''prefixItems'', VNodes [[(''type'', vstr ''string'')], [(''type'', vstr ''boolean'')],
                                    [(''type'', vstr ''null'')]]),
          (''items'', vbool False), (''minItems'', VLit (JNum 3)), (''maxItems'', VLit (JNum 3))]"
  have h1: "convertZodTuple ex_tuple defaultOpts 0 = Inr ?n"
    by (simp add: ex_tuple_def convertZodTuple.simps zodTupleBounds_def eval_zod)
  have h2: "desc_ordered ex_ordered = Some [joiBare ''string'', joiBare ''boolean'']
             \<and> [joiBare ''string'', joiBare ''boolean''] \<noteq> []"
    by (simp add: ex_ordered_def)
  have c1: "convertJoiDescription (Some (joiBare ''string'')) defaultOpts 1 =
              Inr [(''type'', vstr ''string'')]"
    by (simp add: eval_joi)
  have c2: "convertJoiDescription (Some (joiBare ''boolean'')) defaultOpts 1 =
              Inr [(''type'', vstr ''boolean'')]"
    by (simp add: eval_joi)
  from tuple_conversion [of ex_tuple defaultOpts 0 ?n ex_ordered
                            "[joiBare ''string'', joiBare ''boolean'']"] h1 h2
  have "\<exists>prefixItems.
         list_all2 (\<lambda>item p. convertJoiDescription (Some item) defaultOpts (0 + 1) = Inr p)
           [joiBare ''string'', joiBare ''boolean''] prefixItems
         \<and> convertArray ex_ordered defaultOpts 0 =
             Inr [(''type'', vstr ''array''), (''prefixItems'', VNodes prefixItems),
                  (''items'', vbool False),
                  (''minItems'', VLit (JNum (int (length [joiBare ''string'', joiBare ''boolean''])))),
                  (''maxItems'', VLit (JNum (int (length [joiBare ''string'', joiBare ''boolean'']))))]"
    by blast
  then have "convertArray ex_ordered defaultOpts 0 =
     Inr [(''type'', vstr ''array''),
          (''prefixItems'', VNodes [[(''type'', vstr ''string'')], [(''type'', vstr ''boolean'')]]),
          (''items'', vbool False), (''minItems'', VLit (JNum 2)), (''maxItems'', VLit (JNum 2))]"
    by (auto simp: list_all2_Cons1 c1 c2)
  with h1 show ?thesis by simp
qed

text \<open>The claim as stated fails in Dialect B for an \<open>ordered\<close> list with no slots:
  convertArray asks for \<open>desc.ordered.length > 0\<close> and otherwise treats the description as
  a plain array.\<close>

theorem tuple_conversion_counterexample:
  "desc_ordered (JoiDescription ''array'' noFlags None None None (Some []) None None) = Some []
   \<and> convertArray (JoiDescription ''array'' noFlags None None None (Some []) None None)
        defaultOpts 0 = Inr [(''type'', vstr ''array'')]"
  by (simp add: convertArray.simps orEmpty_def)

subsection \<open>Required properties\<close>

lemma convertZodObject_fields_required:
  "convertZodObject_fields entries opts depth acc = Inr r \<Longrightarrow>
     snd r = snd acc @ map fst (filter (\<lambda>(key, fieldSchema). \<not> isZodOptional fieldSchema) entries)"
proof (induction entries arbitrary: acc)
  case Nil
  then show ?case by simp
next
  case (Cons e entries)
  obtain key fieldSchema where e: "e = (key, fieldSchema)" by (cases e)
  from Cons.prems e obtain withDefault where
    "convertZodObject_fields entries opts depth
       (assignProperty key withDefault (fst acc),
        if \<not> isZodOptional fieldSchema then snd acc @ [key] else snd acc) = Inr r"
    by (auto split: sum.splits)
  from Cons.IH [OF this] e show ?case by simp
qed

lemma convertObject_fields_required:
  "convertObject_fields entries opts depth acc = Inr r \<Longrightarrow>
     snd r = snd acc @ map fst (filter (\<lambda>(key, fieldDesc).
               flag_presence (desc_flags fieldDesc) = Some ''required'') entries)"
proof (induction entries arbitrary: acc)
  case Nil
  then show ?case by simp
next
  case (Cons e entries)
  obtain key fieldDesc where e: "e = (key, fieldDesc)" by (cases e)
  from Cons.prems e obtain converted where
    "convertObject_fields entries opts depth
       (assignProperty key converted (fst acc),
        if flag_presence (desc_flags fieldDesc) = Some ''required''
        then snd acc @ [key] else snd acc) = Inr r"
    by (auto split: sum.splits)
  from Cons.IH [OF this] e show ?case by simp
qed

lemma requiredNames_strings:
  "concat (map ((\<lambda>v. case v of JStr s \<Rightarrow> [s] | _ \<Rightarrow> []) \<circ> JStr) names) = names"
  by (induction names) auto

lemma requiredNames_zodObjectResult:
  "requiredNames (zodObjectResult schema properties required) = required"
  by (auto simp: requiredNames_def zodObjectResult_def Let_def update_conv' requiredNames_strings)

lemma requiredNames_joiObjectResult:
  "requiredNames (joiObjectResult desc properties required) = required"
  by (auto simp: requiredNames_def joiObjectResult_def Let_def update_conv' requiredNames_strings)

lemma requiredNames_additionalProperties:
  "requiredNames (AList.update ''additionalProperties'' v n) = requiredNames n"
  by (simp add: requiredNames_def update_conv')

lemma convertZodObject_required:
  assumes "convertZodObject schema opts depth = Inr n"
  shows "requiredNames n =
           map fst (filter (\<lambda>(key, fieldSchema). \<not> isZodOptional fieldSchema)
                      (orEmpty (def_shape schema)))"
proof -
  from assms obtain collected where
    c: "convertZodObject_fields (orEmpty (def_shape schema)) opts depth ([], []) = Inr collected"
    by (auto simp: convertZodObject.simps split: sum.splits)
  from assms c have "requiredNames n = snd collected"
    by (auto simp: convertZodObject.simps requiredNames_zodObjectResult
          requiredNames_additionalProperties split: option.splits sum.splits if_splits)
  with convertZodObject_fields_required [OF c] show ?thesis by simp
qed

lemma convertObject_required:
  assumes "convertObject desc opts depth = Inr n"
  shows "requiredNames n =
           map fst (filter (\<lambda>(key, fieldDesc).
                      flag_presence (desc_flags fieldDesc) = Some ''required'')
                      (orEmpty (desc_keys desc)))"
proof -
  from assms obtain collected where
    c: "convertObject_fields (orEmpty (desc_keys desc)) opts depth ([], []) = Inr collected"
    by (auto simp: convertObject.simps split: sum.splits)
  from assms c have "requiredNames n = snd collected"
    by (auto simp: convertObject.simps requiredNames_joiObjectResult
          requiredNames_additionalProperties split: option.splits sum.splits if_splits)
  with convertObject_fields_required [OF c] show ?thesis by simp
qed

text \<open>
  C1. In the node that convertZodObject returns, a property name is listed under
  \<open>required\<close> if and only if the shape has a field of that name whose own type tag is
  neither ZodOptional nor ZodDefault; in the node that convertObject returns, if and only
  if the description has a key of that name whose \<open>flags.presence\<close> is \<open>'required'\<close>
  (a key without the flag is not required).
\<close>

theorem required_iff_not_optional:
  "(convertZodObject schema opts depth = Inr n \<longrightarrow>
      (\<forall>key. key \<in> set (requiredNames n) \<longleftrightarrow>
         (\<exists>fieldSchema. (key, fieldSchema) \<in> set (orEmpty (def_shape schema))
            \<and> typeNameOf fieldSchema \<noteq> ''ZodOptional''
            \<and> typeNameOf fieldSchema \<noteq> ''ZodDefault'')))
   \<and> (convertObject desc opts depth = Inr m \<longrightarrow>
      (\<forall>key. key \<in> set (requiredNames m) \<longleftrightarrow>
         (\<exists>fieldDesc. (key, fieldDesc) \<in> set (orEmpty (desc_keys desc))
            \<and> flag_presence (desc_flags fieldDesc) = Some ''required'')))"
proof (intro conjI impI allI)
  fix key
  assume "convertZodObject schema opts depth = Inr n"
  from convertZodObject_required [OF this]
  show "key \<in> set (requiredNames n) \<longleftrightarrow>
         (\<exists>fieldSchema. (key, fieldSchema) \<in> set (orEmpty (def_shape schema))
            \<and> typeNameOf fieldSchema \<noteq> ''ZodOptional''
            \<and> typeNameOf fieldSchema \<noteq> ''ZodDefault'')"
    by (force simp: isZodOptional_def Let_def)
next
  fix key
  assume "convertObject desc opts depth = Inr m"
  from convertObject_required [OF this]
  show "key \<in> set (requiredNames m) \<longleftrightarrow>
         (\<exists>fieldDesc. (key, fieldDesc) \<in> set (orEmpty (desc_keys desc))
            \<and> flag_presence (desc_flags fieldDesc) = Some ''required'')"
    by force
qed

theorem required_iff_not_optional_witness:
  "convertZodObject ex_object defaultOpts 0 =
     Inr [(''type'', vstr ''object''),
          (''properties'', VProps [(''a'', [(''type'', vstr ''string'')]),
                                  (''b'', [(''type'', vstr ''string'')]),
                                  (''c'', [(''type'', vstr ''string''),
                                          (''default'', vstr ''user'')])]),
          (''required'', VLit (JArr [JStr ''a'']))]
   \<and> convertObject ex_keys defaultOpts 0 =
     Inr [(''type'', vstr ''object''),
          (''properties'', VProps [(''a'', [(''type'', vstr ''string'')]),
                                  (''b'', [(''type'', vstr ''string'')]),
                                  (''c'', [(''type'', vstr ''string'')])]),
          (''required'', VLit (JArr [JStr ''a'']))]
   \<and> (\<forall>key. key \<in> set [''a''] \<longleftrightarrow>
         (\<exists>fieldSchema. (key, fieldSchema) \<in> set (orEmpty (def_shape ex_object))
            \<and> typeNameOf fieldSchema \<noteq> ''ZodOptional''
            \<and> typeNameOf fieldSchema \<noteq> ''ZodDefault''))
   \<and> (\<forall>key. key \<in> set [''a''] \<longleftrightarrow>
         (\<exists>fieldDesc. (key, fieldDesc) \<in> set (orEmpty (desc_keys ex_keys))
            \<and> flag_presence (desc_flags fieldDesc) = Some ''required''))"
proof -
  let ?n = "[(''type'', vstr ''object''),
          (''properties'', VProps [(''a'', [(''type'', vstr ''string'')]),
                                  (''b'', [(''type'', vstr ''string'')]),
                                  (''c'', [(''type'', vstr ''string''),
                                          (''default'', vstr ''user'')])]),
          (''required'', VLit (JArr [JStr ''a'']))]"
  let ?m = "[(''type'', vstr ''object''),
          (''properties'', VProps [(''a'', [(''type'', vstr ''string'')]),
                                  (''b'', [(''type'', vstr ''string'')]),
                                  (''c'', [(''type'', vstr ''string'')])]),
          (''required'', VLit (JArr [JStr ''a'']))]"
  have h1: "convertZodObject ex_object defaultOpts 0 = Inr ?n"
    by (simp add: ex_object_def convertZodObject.simps zodObjectResult_def
          attachFieldDefault_def assignProperty_def unwrapZodOptional_def isZodOptional_def
          eval_zod)
  have h2: "convertObject ex_keys defaultOpts 0 = Inr ?m"
    by (simp add: ex_keys_def convertObject.simps joiObjectResult_def patternValue_def
          allowUnknownOf_def assignProperty_def eval_joi)
  have r: "requiredNames ?n = [''a'']" "requiredNames ?m = [''a'']"
    by (simp_all add: requiredNames_def)
  from required_iff_not_optional [of ex_object defaultOpts 0 ?n ex_keys ?m] h1 h2
  have "(\<forall>key. key \<in> set (requiredNames ?n) \<longleftrightarrow>
         (\<exists>fieldSchema. (key, fieldSchema) \<in> set (orEmpty (def_shape ex_object))
            \<and> typeNameOf fieldSchema \<noteq> ''ZodOptional''
            \<and> typeNameOf fieldSchema \<noteq> ''ZodDefault''))
     \<and> (\<forall>key. key \<in> set (requiredNames ?m) \<longleftrightarrow>
         (\<exists>fieldDesc. (key, fieldDesc) \<in> set (orEmpty (desc_keys ex_keys))
            \<and> flag_presence (desc_flags fieldDesc) = Some ''required''))"
    by blast
  note this [unfolded r]
  with h1 h2 show ?thesis by blast
qed

subsection \<open>A nullable description that converts to nothing\<close>

lemma convertJoiDescription_combined:
  assumes "depth \<le> maxDepth opts" and "\<not> isJoiEnum desc"
  shows "convertJoiDescription (Some desc) opts depth =
           (case joiTypeSchema desc opts depth of
              Inl e \<Rightarrow> Inl e
            | Inr typeSchema \<Rightarrow>
                Inr (applyNullable desc (spread (joiMetadata desc opts) typeSchema)))"
  using assms by (simp add: convertJoiDescription.simps joiTypeSchema_def)

text \<open>
  C6. For a Dialect-B description that allows \<open>null\<close> and is not an enum (\<open>flags.only\<close>
  not set), within the depth bound: when \<open>combined\<close>, the collected metadata with the
  result of the type dispatch spread over it, is the empty object, the converter returns
  that empty node and no \<open>anyOf\<close> wrap.
\<close>

theorem nullable_empty_not_wrapped:
  assumes "hasNullAllow desc"
    and "\<not> flag_only (desc_flags desc)"
    and "depth \<le> maxDepth opts"
    and "joiTypeSchema desc opts depth = Inr typeSchema"
    and "spread (joiMetadata desc opts) typeSchema = []"
  shows "convertJoiDescription (Some desc) opts depth = Inr []"
proof -
  from assms(2) have "\<not> isJoiEnum desc" by (simp add: isJoiEnum_def)
  from convertJoiDescription_combined [OF assms(3) this] assms(4,5)
  show ?thesis by (simp add: applyNullable_def scalarType_def)
qed

theorem nullable_empty_not_wrapped_witness:
  "convertJoiDescription (Some ex_nullableAny) defaultOpts 0 = Inr []"
proof -
  have h1: "hasNullAllow ex_nullableAny"
    by (simp add: ex_nullableAny_def hasNullAllow_def orEmpty_def)
  have h2: "\<not> flag_only (desc_flags ex_nullableAny)"
    by (simp add: ex_nullableAny_def noFlags_def)
  have h3: "0 \<le> maxDepth defaultOpts" by (simp add: defaultOpts_def)
  have h4: "joiTypeSchema ex_nullableAny defaultOpts 0 = Inr []"
    by (simp add: ex_nullableAny_def joiTypeSchema_def)
  have h5: "spread (joiMetadata ex_nullableAny defaultOpts) [] = []"
    by (simp add: ex_nullableAny_def joiMetadata_def noFlags_def)
  from nullable_empty_not_wrapped [OF h1 h2 h3 h4 h5] show ?thesis .
qed

subsection \<open>The option toggles\<close>

lemma withoutFieldV_simps [simp]:
  "withoutFieldV k (VNode n) = VNode (withoutField k n)"
  "withoutFieldV k (VNodes ns) = VNodes (map (withoutField k) ns)"
  "withoutFieldV k (VProps ps) = VProps (map (\<lambda>(p, n). (p, withoutField k n)) ps)"
  by (simp_all add: withoutField_def)

declare withoutFieldV.simps(2-4) [simp del]

lemma yields_simps [simp]:
  "yields f (Inl e) r' = True"
  "yields f (Inr n) r' \<longleftrightarrow> r' = Inr (f n)"
  by (simp_all add: yields_def)

lemma withoutField_Nil [simp]: "withoutField k [] = []"
  by (simp add: withoutField_def)

lemma withoutField_Cons [simp]:
  "withoutField k ((f, v) # n) =
     (if f = k then withoutField k n else (f, withoutFieldV k v) # withoutField k n)"
  by (simp add: withoutField_def)

lemma map_update_values:
  "map (\<lambda>(f, v). (f, g v)) (AList.update k' v al) =
     AList.update k' (g v) (map (\<lambda>(f, v). (f, g v)) al)"
  by (induction al) auto

lemma withoutField_update [simp]:
  "withoutField k (AList.update k' v n) =
     (if k' = k then withoutField k n
      else AList.update k' (withoutFieldV k v) (withoutField k n))"
  by (simp add: withoutField_def map_update_values delete_update_same delete_update)

lemma withoutField_spread [simp]:
  "withoutField k (spread a b) = spread (withoutField k a) (withoutField k b)"
proof (induction b arbitrary: a)
  case Nil
  show ?case by simp
next
  case (Cons e b)
  obtain f v where e: "e = (f, v)" by (cases e)
  show ?case unfolding e by (simp add: Cons.IH)
qed

lemma map_of_withoutField:
  "k' \<noteq> k \<Longrightarrow> map_of (withoutField k n) k' = map_option (withoutFieldV k) (map_of n k')"
  by (induction n) auto

lemma withoutFieldV_eq_VLit [simp]: "withoutFieldV k v = VLit j \<longleftrightarrow> v = VLit j"
  by (cases v) auto

lemma scalarType_withoutField [simp]:
  "k \<noteq> ''type'' \<Longrightarrow> scalarType (withoutField k n) = scalarType n"
  by (cases "map_of n ''type''")
     (auto simp: scalarType_def map_of_withoutField split: option.splits fval.splits jsval.splits)

lemma plainNode_withoutField: "plainNode k n \<Longrightarrow> withoutField k n = n"
  by (induction n) (auto simp: plainNode_def)

lemma plainNode_update:
  "plainNode k n \<Longrightarrow> f \<noteq> k \<Longrightarrow> plainNode k (AList.update f (VLit j) n)"
  by (induction n) (auto simp: plainNode_def)

lemma plainNode_Nil [simp]: "plainNode k []"
  by (simp add: plainNode_def)

lemma plainNode_Cons [simp]:
  "plainNode k ((f, v) # n) \<longleftrightarrow> f \<noteq> k \<and> (\<exists>j. v = VLit j) \<and> plainNode k n"
  by (simp add: plainNode_def)

lemma metadataKey: 
  "toggledOff k opts opts' \<Longrightarrow> k = ''default'' \<or> k = ''description''"
  by (auto simp: toggledOff_def)

lemma convertZodString_check_plain:
  assumes "k = ''default'' \<or> k = ''description''" "plainNode k r"
    and "convertZodString_check c r = Inr r'"
  shows "plainNode k r'"
  using assms
  by (auto simp: convertZodString_check_def Let_def plainNode_update split: if_splits sum.splits)

lemma convertZodString_loop_plain:
  assumes "k = ''default'' \<or> k = ''description''"
  shows "plainNode k r \<Longrightarrow> convertZodString_loop cs r = Inr r' \<Longrightarrow> plainNode k r'"
proof (induction cs arbitrary: r)
  case Nil
  then show ?case by simp
next
  case (Cons c cs)
  from Cons.prems(2) obtain r1 where
    s: "convertZodString_check c r = Inr r1" and l: "convertZodString_loop cs r1 = Inr r'"
    by (auto split: sum.splits)
  from Cons.IH [OF convertZodString_check_plain [OF assms Cons.prems(1) s] l] show ?case .
qed

lemma convertZodString_plain:
  assumes "k = ''default'' \<or> k = ''description''" "convertZodString schema opts = Inr r"
  shows "withoutField k r = r"
proof -
  have "plainNode k [(''type'', vstr ''string'')]" using assms(1) by auto
  from convertZodString_loop_plain [OF assms(1) this] assms(2)
  show ?thesis by (auto simp: convertZodString_def intro: plainNode_withoutField)
qed

lemma convertZodNumber_check_plain:
  assumes "k = ''default'' \<or> k = ''description''" "plainNode k (snd st)"
  shows "plainNode k (snd (convertZodNumber_check c st))"
  using assms by (auto simp: convertZodNumber_check_def Let_def plainNode_update)

lemma convertZodNumber_fold_plain:
  assumes "k = ''default'' \<or> k = ''description''"
  shows "plainNode k (snd st) \<Longrightarrow> plainNode k (snd (fold convertZodNumber_check cs st))"
  by (induction cs arbitrary: st) (auto simp: convertZodNumber_check_plain [OF assms])

lemma convertZodNumber_plain:
  assumes "k = ''default'' \<or> k = ''description''"
  shows "withoutField k (convertZodNumber schema) = convertZodNumber schema"
proof -
  have "plainNode k (snd (fold convertZodNumber_check (orEmpty (def_checks schema)) (False, [])))"
    by (rule convertZodNumber_fold_plain [OF assms]) simp
  then have "plainNode k (convertZodNumber schema)"
    using assms by (auto simp: convertZodNumber_def split: prod.splits intro: plainNode_update)
  then show ?thesis by (rule plainNode_withoutField)
qed

lemma zodDescription_toggled:
  "toggledOff k opts opts' \<Longrightarrow>
     zodDescription schema opts' = withoutField k (zodDescription schema opts)"
  by (auto simp: toggledOff_def zodDescription_def split: option.splits)

lemma maxDepth_toggled [simp]: "toggledOff k opts opts' \<Longrightarrow> maxDepth opts' = maxDepth opts"
  by (auto simp: toggledOff_def)

lemma attachFieldDefault_toggled:
  "toggledOff k opts opts' \<Longrightarrow>
     yields (withoutField k) (attachFieldDefault f opts c)
       (attachFieldDefault f opts' (withoutField k c))"
  by (auto simp: toggledOff_def attachFieldDefault_def Let_def map_of_withoutField
        split: sum.splits)

lemma map_assignProperty:
  "map (\<lambda>(p, n). (p, g n)) (assignProperty key v properties) =
     assignProperty key (g v) (map (\<lambda>(p, n). (p, g n)) properties)"
  by (simp add: assignProperty_def map_update_values)

lemma zodObjectResult_withoutField:
  "k = ''default'' \<or> k = ''description'' \<Longrightarrow>
   withoutField k (zodObjectResult schema properties required) =
     zodObjectResult schema (map (\<lambda>(p, n). (p, withoutField k n)) properties) required"
  by (auto simp: zodObjectResult_def Let_def)

lemma zodArrayLengths_withoutField:
  "k = ''default'' \<or> k = ''description'' \<Longrightarrow>
   withoutField k (zodArrayLengths schema r) = zodArrayLengths schema (withoutField k r)"
  by (auto simp: zodArrayLengths_def Let_def)

lemma zodTupleBounds_withoutField:
  "k = ''default'' \<or> k = ''description'' \<Longrightarrow>
   withoutField k (zodTupleBounds schema r) = zodTupleBounds schema (withoutField k r)"
  by (auto simp: zodTupleBounds_def Let_def)


lemmas zod_induct = convertZodType_convertZodTypes_convertZodObject_convertZodObject_fields_convertZodArray_convertZodTuple.induct

lemma zod_toggle:
  shows "toggledOff k opts opts' \<Longrightarrow>
           yields (withoutField k) (convertZodType s opts depth) (convertZodType s opts' depth)"
    and "toggledOff k opts opts' \<Longrightarrow>
           yields (map (withoutField k)) (convertZodTypes items opts depth)
             (convertZodTypes items opts' depth)"
    and "toggledOff k opts opts' \<Longrightarrow>
           yields (withoutField k) (convertZodObject schema opts depth)
             (convertZodObject schema opts' depth)"
    and "toggledOff k opts opts' \<Longrightarrow>
           yields (\<lambda>r. (map (\<lambda>(p, n). (p, withoutField k n)) (fst r), snd r))
             (convertZodObject_fields entries opts depth acc)
             (convertZodObject_fields entries opts' depth
                (map (\<lambda>(p, n). (p, withoutField k n)) (fst acc), snd acc))"
    and "toggledOff k opts opts' \<Longrightarrow>
           yields (withoutField k) (convertZodArray schema' opts depth)
             (convertZodArray schema' opts' depth)"
    and "toggledOff k opts opts' \<Longrightarrow>
           yields (withoutField k) (convertZodTuple schema'' opts depth)
             (convertZodTuple schema'' opts' depth)"
proof (induct s opts depth and items opts depth and schema opts depth
         and entries opts depth acc and schema' opts depth and schema'' opts depth
         rule: zod_induct)
  case (1 s opts depth)
  note t = "1.prems"
  note key = metadataKey [OF t]
  show ?case
  proof (cases "maxDepth opts < depth")
    case True
    with t show ?thesis by (simp add: convertZodType.simps)
  next
    case False
    show ?thesis
    proof (cases s)
      case None
      with False t show ?thesis by (simp add: convertZodType.simps)
    next
      case (Some schema)
      note ih = "1.hyps" [OF False Some]
      have d: "zodDescription schema opts' = withoutField k (zodDescription schema opts)"
        by (rule zodDescription_toggled [OF t])
      have str: "convertZodString schema opts' = convertZodString schema opts"
        by (simp add: convertZodString_def)
      have tags: "typeNameOf schema = ''ZodString'' \<or> typeNameOf schema = ''ZodNumber''
           \<or> typeNameOf schema = ''ZodBigInt'' \<or> typeNameOf schema = ''ZodBoolean''
           \<or> typeNameOf schema = ''ZodNull'' \<or> typeNameOf schema = ''ZodUndefined''
           \<or> typeNameOf schema = ''ZodLiteral'' \<or> typeNameOf schema = ''ZodEnum''
           \<or> typeNameOf schema = ''ZodNativeEnum'' \<or> typeNameOf schema = ''ZodObject''
           \<or> typeNameOf schema = ''ZodArray'' \<or> typeNameOf schema = ''ZodTuple''
           \<or> typeNameOf schema = ''ZodUnion'' \<or> typeNameOf schema = ''ZodDiscriminatedUnion''
           \<or> typeNameOf schema = ''ZodIntersection'' \<or> typeNameOf schema = ''ZodOptional''
           \<or> typeNameOf schema = ''ZodNullable'' \<or> typeNameOf schema = ''ZodDefault''
           \<or> typeNameOf schema = ''ZodCatch'' \<or> typeNameOf schema = ''ZodBranded''
           \<or> typeNameOf schema = ''ZodReadonly'' \<or> typeNameOf schema = ''ZodRecord''
           \<or> typeNameOf schema = ''ZodMap'' \<or> typeNameOf schema = ''ZodSet''
           \<or> typeNameOf schema = ''ZodFunction'' \<or> typeNameOf schema = ''ZodLazy''
           \<or> typeNameOf schema = ''ZodPromise'' \<or> typeNameOf schema = ''ZodUnknown''
           \<or> typeNameOf schema = ''ZodAny'' \<or> typeNameOf schema = ''ZodNever''
           \<or> typeNameOf schema = ''ZodVoid'' \<or> typeNameOf schema = ''ZodDate''
           \<or> typeNameOf schema = ''ZodSymbol'' \<or> typeNameOf schema = ''ZodPipeline''
           \<or> typeNameOf schema = ''ZodEffects''
           \<or> typeNameOf schema \<notin> set zodTypeNames"
        by (auto simp: zodTypeNames_def)
      let ?goal = "yields (withoutField k) (convertZodType (Some schema) opts depth)
                     (convertZodType (Some schema) opts' depth)"
      note unfold = convertZodType.simps [of "Some schema"]
      have c_ZodString: ?goal if tg: "typeNameOf schema = ''ZodString''"
      proof (cases "convertZodString schema opts")
        case (Inl e)
        with tg False t show ?thesis by (simp add: unfold d str)
      next
        case (Inr r)
        with tg False t convertZodString_plain [OF key Inr] show ?thesis
          by (simp add: unfold d str)
      qed
      have c_ZodNumber: ?goal if tg: "typeNameOf schema = ''ZodNumber''"
        using key tg False t by (elim disjE; simp add: unfold d convertZodNumber_plain)
      have c_ZodBigInt: ?goal if tg: "typeNameOf schema = ''ZodBigInt''"
        using key tg False t by (elim disjE; simp add: unfold d)
      have c_ZodBoolean: ?goal if tg: "typeNameOf schema = ''ZodBoolean''"
        using key tg False t by (elim disjE; simp add: unfold d)
      have c_ZodNull: ?goal if tg: "typeNameOf schema = ''ZodNull''"
        using key tg False t by (elim disjE; simp add: unfold d)
      have c_ZodUndefined: ?goal if tg: "typeNameOf schema = ''ZodUndefined''"
        using key tg False t by (elim disjE; simp add: unfold d)
      have c_ZodLiteral: ?goal if tg: "typeNameOf schema = ''ZodLiteral''"
        using key tg False t by (elim disjE; simp add: unfold d)
      have c_ZodEnum: ?goal if tg: "typeNameOf schema = ''ZodEnum''"
        using key tg False t by (elim disjE; simp add: unfold d)
      have c_ZodNativeEnum: ?goal if tg: "typeNameOf schema = ''ZodNativeEnum''"
        using key tg False t by (elim disjE; simp add: unfold d)
      have c_ZodObject: ?goal if tg: "typeNameOf schema = ''ZodObject''"
      proof -
        have i: "yields (withoutField k) (convertZodObject schema opts depth) (convertZodObject schema opts' depth)"
          using ih(1) tg t by simp
        show ?thesis
          using key tg False t i
          by (cases "convertZodObject schema opts depth"; elim disjE; simp add: unfold d nullNode_def split: option.splits)
      qed
      have c_ZodArray: ?goal if tg: "typeNameOf schema = ''ZodArray''"
      proof -
        have i: "yields (withoutField k) (convertZodArray schema opts depth) (convertZodArray schema opts' depth)"
          using ih(2) tg t by simp
        show ?thesis
          using key tg False t i
          by (cases "convertZodArray schema opts depth"; elim disjE; simp add: unfold d nullNode_def split: option.splits)
      qed
      have c_ZodTuple: ?goal if tg: "typeNameOf schema = ''ZodTuple''"
      proof -
        have i: "yields (withoutField k) (convertZodTuple schema opts depth) (convertZodTuple schema opts' depth)"
          using ih(3) tg t by simp
        show ?thesis
          using key tg False t i
          by (cases "convertZodTuple schema opts depth"; elim disjE; simp add: unfold d nullNode_def split: option.splits)
      qed
      have c_ZodUnion: ?goal if tg: "typeNameOf schema = ''ZodUnion''"
      proof (cases "def_options schema")
        case None
        with tg False t show ?thesis by (simp add: unfold)
      next
        case (Some branchSchemas)
        have i: "yields (map (withoutField k)) (convertZodTypes branchSchemas opts (depth + 1))
                   (convertZodTypes branchSchemas opts' (depth + 1))"
          using ih(4) [OF _ _ _ _ _ _ _ _ _ _ _ _ _ Some t] tg by simp
        show ?thesis
          using key tg False t i Some
          by (cases "convertZodTypes branchSchemas opts (depth + 1)"; elim disjE; simp add: unfold d)
      qed
      have c_ZodDiscriminatedUnion: ?goal if tg: "typeNameOf schema = ''ZodDiscriminatedUnion''"
      proof (cases "def_options schema")
        case None
        with tg False t show ?thesis by (simp add: unfold)
      next
        case (Some branchSchemas)
        have i: "yields (map (withoutField k)) (convertZodTypes branchSchemas opts (depth + 1))
                   (convertZodTypes branchSchemas opts' (depth + 1))"
          using ih(4) [OF _ _ _ _ _ _ _ _ _ _ _ _ _ Some t] tg by simp
        show ?thesis
          using key tg False t i Some
          by (cases "convertZodTypes branchSchemas opts (depth + 1)"; elim disjE; simp add: unfold d)
      qed
      have c_ZodIntersection: ?goal if tg: "typeNameOf schema = ''ZodIntersection''"
      proof (cases "convertZodType (def_left schema) opts (depth + 1)")
        case (Inl e)
        with tg False t show ?thesis by (simp add: unfold)
      next
        case (Inr l)
        have i: "yields (withoutField k) (convertZodType (def_left schema) opts (depth + 1)) (convertZodType (def_left schema) opts' (depth + 1))"
          using ih(5) tg t by simp
        have j: "yields (withoutField k) (convertZodType (def_right schema) opts (depth + 1)) (convertZodType (def_right schema) opts' (depth + 1))"
          using ih(6) [OF _ _ _ _ _ _ _ _ _ _ _ _ _ _ Inr t] tg by simp
        show ?thesis
          using key tg False t i j Inr
          by (cases "convertZodType (def_right schema) opts (depth + 1)"; elim disjE; simp add: unfold d)
      qed
      have c_ZodOptional: ?goal if tg: "typeNameOf schema = ''ZodOptional''"
      proof -
        have i: "yields (withoutField k) (convertZodType (def_innerType schema) opts (depth + 1)) (convertZodType (def_innerType schema) opts' (depth + 1))"
          using ih(7) tg t by simp
        show ?thesis
          using key tg False t i
          by (cases "convertZodType (def_innerType schema) opts (depth + 1)"; elim disjE; simp add: unfold d nullNode_def split: option.splits)
      qed
      have c_ZodNullable: ?goal if tg: "typeNameOf schema = ''ZodNullable''"
      proof -
        have i: "yields (withoutField k) (convertZodType (def_innerType schema) opts (depth + 1)) (convertZodType (def_innerType schema) opts' (depth + 1))"
          using ih(8) tg t by simp
        show ?thesis
          using key tg False t i
          by (cases "convertZodType (def_innerType schema) opts (depth + 1)"; elim disjE; simp add: unfold d nullNode_def split: option.splits)
      qed
      have c_ZodDefault: ?goal if tg: "typeNameOf schema = ''ZodDefault''"
      proof -
        have i: "yields (withoutField k) (convertZodType (def_innerType schema) opts (depth + 1)) (convertZodType (def_innerType schema) opts' (depth + 1))"
          using ih(9) tg t by simp
        show ?thesis
          using key tg False t i
          by (cases "convertZodType (def_innerType schema) opts (depth + 1)"; cases "def_defaultValue schema";
              elim disjE; simp add: unfold d; simp add: toggledOff_def)
      qed
      have c_ZodCatch: ?goal if tg: "typeNameOf schema = ''ZodCatch''"
      proof -
        have i: "yields (withoutField k) (convertZodType (def_innerType schema) opts (depth + 1)) (convertZodType (def_innerType schema) opts' (depth + 1))"
          using ih(10) tg t by simp
        show ?thesis
          using key tg False t i
          by (cases "convertZodType (def_innerType schema) opts (depth + 1)"; elim disjE; simp add: unfold d nullNode_def split: option.splits)
      qed
      have c_ZodBranded: ?goal if tg: "typeNameOf schema = ''ZodBranded''"
      proof -
        have i: "yields (withoutField k) (convertZodType (def_type schema) opts (depth + 1)) (convertZodType (def_type schema) opts' (depth + 1))"
          using ih(11) tg t by simp
        show ?thesis
          using key tg False t i
          by (cases "convertZodType (def_type schema) opts (depth + 1)"; elim disjE; simp add: unfold d nullNode_def split: option.splits)
      qed
      have c_ZodReadonly: ?goal if tg: "typeNameOf schema = ''ZodReadonly''"
      proof -
        have i: "yields (withoutField k) (convertZodType (def_innerType schema) opts (depth + 1)) (convertZodType (def_innerType schema) opts' (depth + 1))"
          using ih(12) tg t by simp
        show ?thesis
          using key tg False t i
          by (cases "convertZodType (def_innerType schema) opts (depth + 1)"; elim disjE; simp add: unfold d nullNode_def split: option.splits)
      qed
      have c_ZodRecord: ?goal if tg: "typeNameOf schema = ''ZodRecord''"
      proof (cases "def_valueType schema")
        case None
        with key tg False t show ?thesis by (elim disjE; simp add: unfold d)
      next
        case (Some valueSchema)
        have i: "yields (withoutField k) (convertZodType (Some valueSchema) opts (depth + 1))
                   (convertZodType (Some valueSchema) opts' (depth + 1))"
          using ih(13) [OF _ _ _ _ _ _ _ _ _ _ _ _ _ _ _ _ _ _ _ _ _ Some t] tg by simp
        show ?thesis
          using key tg False t i Some
          by (cases "convertZodType (Some valueSchema) opts (depth + 1)"; elim disjE;
              simp add: unfold d)
      qed
      have c_ZodMap: ?goal if tg: "typeNameOf schema = ''ZodMap''"
        using key tg False t by (elim disjE; simp add: unfold d)
      have c_ZodSet: ?goal if tg: "typeNameOf schema = ''ZodSet''"
      proof (cases "def_valueType schema")
        case None
        with key tg False t show ?thesis by (elim disjE; simp add: unfold d)
      next
        case (Some valueSchema)
        have i: "yields (withoutField k) (convertZodType (Some valueSchema) opts (depth + 1))
                   (convertZodType (Some valueSchema) opts' (depth + 1))"
          using ih(14) [OF _ _ _ _ _ _ _ _ _ _ _ _ _ _ _ _ _ _ _ _ _ _ _ Some t] tg by simp
        show ?thesis
          using key tg False t i Some
          by (cases "convertZodType (Some valueSchema) opts (depth + 1)"; elim disjE;
              simp add: unfold d)
      qed
      have c_ZodFunction: ?goal if tg: "typeNameOf schema = ''ZodFunction''"
        using key tg False t by (elim disjE; simp add: unfold d)
      have c_ZodLazy: ?goal if tg: "typeNameOf schema = ''ZodLazy''"
        using key tg False t by (elim disjE; simp add: unfold d)
      have c_ZodPromise: ?goal if tg: "typeNameOf schema = ''ZodPromise''"
        using key tg False t by (elim disjE; simp add: unfold d)
      have c_ZodUnknown: ?goal if tg: "typeNameOf schema = ''ZodUnknown''"
        using key tg False t by (elim disjE; simp add: unfold d)
      have c_ZodAny: ?goal if tg: "typeNameOf schema = ''ZodAny''"
        using key tg False t by (elim disjE; simp add: unfold d)
      have c_ZodNever: ?goal if tg: "typeNameOf schema = ''ZodNever''"
        using key tg False t by (elim disjE; simp add: unfold d)
      have c_ZodVoid: ?goal if tg: "typeNameOf schema = ''ZodVoid''"
        using key tg False t by (elim disjE; simp add: unfold d)
      have c_ZodDate: ?goal if tg: "typeNameOf schema = ''ZodDate''"
        using key tg False t by (elim disjE; simp add: unfold d)
      have c_ZodSymbol: ?goal if tg: "typeNameOf schema = ''ZodSymbol''"
        using key tg False t by (elim disjE; simp add: unfold d)
      have c_ZodPipeline: ?goal if tg: "typeNameOf schema = ''ZodPipeline''"
      proof -
        have i: "yields (withoutField k) (convertZodType (def_in schema) opts (depth + 1)) (convertZodType (def_in schema) opts' (depth + 1))"
          using ih(15) tg t by simp
        show ?thesis
          using key tg False t i
          by (cases "convertZodType (def_in schema) opts (depth + 1)"; elim disjE; simp add: unfold d nullNode_def split: option.splits)
      qed
      have c_ZodEffects: ?goal if tg: "typeNameOf schema = ''ZodEffects''"
      proof -
        have i: "yields (withoutField k) (convertZodType (def_schema schema) opts (depth + 1)) (convertZodType (def_schema schema) opts' (depth + 1))"
          using ih(16) tg t by simp
        show ?thesis
          using key tg False t i
          by (cases "convertZodType (def_schema schema) opts (depth + 1)"; elim disjE; simp add: unfold d nullNode_def split: option.splits)
      qed
      have c_other: ?goal if "typeNameOf schema \<notin> set zodTypeNames"
        using key that False t by (elim disjE; simp add: unfold d zodTypeNames_def)
      show ?thesis
        unfolding Some
        using tags c_ZodString c_ZodNumber c_ZodBigInt c_ZodBoolean c_ZodNull c_ZodUndefined c_ZodLiteral c_ZodEnum c_ZodNativeEnum c_ZodObject c_ZodArray c_ZodTuple c_ZodUnion c_ZodDiscriminatedUnion c_ZodIntersection c_ZodOptional c_ZodNullable c_ZodDefault c_ZodCatch c_ZodBranded c_ZodReadonly c_ZodRecord c_ZodMap c_ZodSet c_ZodFunction c_ZodLazy c_ZodPromise c_ZodUnknown c_ZodAny c_ZodNever c_ZodVoid c_ZodDate c_ZodSymbol c_ZodPipeline c_ZodEffects c_other
        by blast
    qed
  qed
next
  case (2 opts depth)
  show ?case by simp
next
  case (3 item items opts depth)
  note t = "3.prems"
  show ?case
  proof (cases "convertZodType (Some item) opts depth")
    case (Inl e)
    then show ?thesis by simp
  next
    case (Inr n)
    from "3.hyps"(1) [OF t] "3.hyps"(2) [OF Inr t] Inr show ?thesis
      by (cases "convertZodTypes items opts depth") simp_all
  qed
next
  case (4 schema opts depth)
  note t = "4.prems"
  note key = metadataKey [OF t]
  have f: "yields (\<lambda>r. (map (\<lambda>(p, n). (p, withoutField k n)) (fst r), snd r))
             (convertZodObject_fields (orEmpty (def_shape schema)) opts depth ([], []))
             (convertZodObject_fields (orEmpty (def_shape schema)) opts' depth ([], []))"
    using "4.hyps"(1) [OF t] by simp
  show ?case
  proof (cases "convertZodObject_fields (orEmpty (def_shape schema)) opts depth ([], [])")
    case (Inl e)
    then show ?thesis by (simp add: convertZodObject.simps)
  next
    case (Inr collected)
    show ?thesis
    proof (cases "def_catchall schema")
      case None
      with f Inr key show ?thesis
        by (auto simp: convertZodObject.simps zodObjectResult_withoutField)
    next
      case (Some catchall)
      show ?thesis
      proof (cases "typeNameOf catchall \<noteq> ''ZodNever''")
        case True
        from "4.hyps"(2) [OF Inr Some True t] f Inr Some True key show ?thesis
          by (cases "convertZodType (Some catchall) opts (depth + 1)")
             (auto simp: convertZodObject.simps zodObjectResult_withoutField)
      next
        case False
        with f Inr Some key show ?thesis
          by (auto simp: convertZodObject.simps zodObjectResult_withoutField)
      qed
    qed
  qed
next
  case (5 opts depth acc)
  show ?case by simp
next
  case (6 key fieldSchema entries opts depth acc)
  note t = "6.prems"
  show ?case
  proof (cases "convertZodType (unwrapZodOptional fieldSchema) opts (depth + 1)")
    case (Inl e)
    then show ?thesis by simp
  next
    case (Inr converted)
    with "6.hyps"(1) [OF t] have
      c: "convertZodType (unwrapZodOptional fieldSchema) opts' (depth + 1) =
            Inr (withoutField k converted)" by simp
    show ?thesis
    proof (cases "attachFieldDefault fieldSchema opts converted")
      case (Inl e)
      with Inr show ?thesis by simp
    next
      case a: (Inr withDefault)
      with attachFieldDefault_toggled [OF t, of fieldSchema converted] have
        a': "attachFieldDefault fieldSchema opts' (withoutField k converted) =
               Inr (withoutField k withDefault)" by simp
      from "6.hyps"(2) [OF Inr a t] c Inr a a' show ?thesis
        by (cases "isZodOptional fieldSchema") (simp_all add: map_assignProperty)
    qed
  qed
next
  case (7 schema opts depth)
  note t = "7.prems"
  note key = metadataKey [OF t]
  show ?case
  proof (cases "def_type schema")
    case None
    with key show ?thesis by (auto simp: convertZodArray.simps zodArrayLengths_withoutField)
  next
    case (Some itemSchema)
    from "7.hyps" [OF Some t] Some key show ?thesis
      by (cases "convertZodType (Some itemSchema) opts (depth + 1)")
         (auto simp: convertZodArray.simps zodArrayLengths_withoutField)
  qed
next
  case (8 schema opts depth)
  note t = "8.prems"
  note key = metadataKey [OF t]
  show ?case
  proof (cases "convertZodTypes (orEmpty (def_items schema)) opts (depth + 1)")
    case (Inl e)
    then show ?thesis by (simp add: convertZodTuple.simps)
  next
    case (Inr prefixItems)
    with "8.hyps"(1) [OF t] have
      p: "convertZodTypes (orEmpty (def_items schema)) opts' (depth + 1) =
            Inr (map (withoutField k) prefixItems)" by simp
    show ?thesis
    proof (cases "def_rest schema")
      case None
      with p Inr key show ?thesis
        by (auto simp: convertZodTuple.simps zodTupleBounds_withoutField)
    next
      case (Some rest)
      from "8.hyps"(2) [OF Inr Some t] p Inr Some key show ?thesis
        by (cases "convertZodType (Some rest) opts (depth + 1)")
           (auto simp: convertZodTuple.simps zodTupleBounds_withoutField)
    qed
  qed
qed

lemma joiMetadata_toggled:
  "toggledOff k opts opts' \<Longrightarrow>
     joiMetadata desc opts' = withoutField k (joiMetadata desc opts)"
  by (auto simp: toggledOff_def joiMetadata_def Let_def split: option.splits)

lemma joiEnum_withoutField:
  "k = ''default'' \<or> k = ''description'' \<Longrightarrow>
     withoutField k (joiEnum desc r) = joiEnum desc (withoutField k r)"
  by (elim disjE; simp add: joiEnum_def Let_def)

lemma joiObjectResult_withoutField:
  "k = ''default'' \<or> k = ''description'' \<Longrightarrow>
   withoutField k (joiObjectResult desc properties required) =
     joiObjectResult desc (map (\<lambda>(p, n). (p, withoutField k n)) properties) required"
  by (elim disjE; simp add: joiObjectResult_def Let_def)

lemma convertArray_rule_withoutField:
  "k = ''default'' \<or> k = ''description'' \<Longrightarrow>
   withoutField k (convertArray_rule rule r) = convertArray_rule rule (withoutField k r)"
  by (elim disjE; simp add: convertArray_rule_def Let_def)

lemma convertArray_rules_withoutField:
  "k = ''default'' \<or> k = ''description'' \<Longrightarrow>
   withoutField k (fold convertArray_rule rules r) = fold convertArray_rule rules (withoutField k r)"
  by (induction rules arbitrary: r) (simp_all add: convertArray_rule_withoutField)

lemma convertString_rule_plain:
  "k = ''default'' \<or> k = ''description'' \<Longrightarrow> plainNode k r \<Longrightarrow>
     plainNode k (convertString_rule rule r)"
  by (elim disjE; simp add: convertString_rule_def Let_def plainNode_update
           split: option.splits jregex.splits)

lemma convertString_plain:
  assumes "k = ''default'' \<or> k = ''description''"
  shows "withoutField k (convertString desc opts) = convertString desc opts"
proof -
  have "plainNode k r \<Longrightarrow> plainNode k (fold convertString_rule rules r)" for rules :: "jdesc jrule list" and r
    by (induction rules arbitrary: r) (simp_all add: convertString_rule_plain [OF assms])
  from this [of "[(''type'', vstr ''string'')]"] assms
  have "plainNode k (convertString desc opts)" by (auto simp: convertString_def)
  then show ?thesis by (rule plainNode_withoutField)
qed

lemma convertNumber_rule_plain:
  "k = ''default'' \<or> k = ''description'' \<Longrightarrow> plainNode k (snd st) \<Longrightarrow>
     plainNode k (snd (convertNumber_rule rule st))"
  by (elim disjE; simp add: convertNumber_rule_def Let_def plainNode_update)

lemma convertNumber_fold_plain:
  assumes "k = ''default'' \<or> k = ''description''"
  shows "plainNode k (snd st) \<Longrightarrow> plainNode k (snd (fold convertNumber_rule rules st))"
  by (induction rules arbitrary: st) (auto simp: convertNumber_rule_plain [OF assms])

lemma convertNumber_plain:
  assumes "k = ''default'' \<or> k = ''description''"
  shows "withoutField k (convertNumber desc) = convertNumber desc"
proof -
  have "plainNode k (snd (fold convertNumber_rule (orEmpty (desc_rules desc)) (False, [])))"
    by (rule convertNumber_fold_plain [OF assms]) simp
  then have "plainNode k (convertNumber desc)"
    using assms by (auto simp: convertNumber_def split: prod.splits intro: plainNode_update)
  then show ?thesis by (rule plainNode_withoutField)
qed

lemma applyNullable_withoutField:
  assumes "k = ''default'' \<or> k = ''description''"
    and "hasNullAllow desc \<and> \<not> flag_only (desc_flags desc) \<longrightarrow> \<not> emptiedBy k c"
  shows "applyNullable desc (withoutField k c) = withoutField k (applyNullable desc c)"
proof (cases "hasNullAllow desc \<and> \<not> flag_only (desc_flags desc)")
  case False
  then show ?thesis by (auto simp: applyNullable_def)
next
  case True
  with assms(2) have ne: "c \<noteq> [] \<Longrightarrow> withoutField k c \<noteq> []"
    by (simp add: emptiedBy_def)
  from assms(1) have kt: "k \<noteq> ''type''" by auto
  note mo = map_of_withoutField [OF not_sym [OF kt], of c]
  show ?thesis
  proof (cases "scalarType c")
    case (Some t)
    with True assms(1) show ?thesis by (auto simp: applyNullable_def)
  next
    case None
    then have n': "scalarType (withoutField k c) = None" using kt by simp
    show ?thesis
    proof (cases "map_of c ''type''")
      case none: None
      with True None n' mo ne assms(1) show ?thesis
        by (cases "c = []") (auto simp: applyNullable_def nullNode_def)
    next
      case (Some v)
      then have c: "c \<noteq> []" by auto
      from Some mo have "map_of (withoutField k c) ''type'' = Some (withoutFieldV k v)" by simp
      with True None n' Some ne [OF c] c assms(1) show ?thesis
        by (cases v; auto simp: applyNullable_def nullNode_def split: jsval.splits)
    qed
  qed
qed

lemma joiTypeSchema_plain_kinds:
  assumes "k = ''default'' \<or> k = ''description''"
    and "desc_type desc \<noteq> ''object''" "desc_type desc \<noteq> ''array''"
    and "desc_type desc \<noteq> ''alternatives''"
  shows "yields (withoutField k) (joiTypeSchema desc opts depth) (joiTypeSchema desc opts' depth)"
proof -
  have s: "convertString desc opts' = convertString desc opts"
    by (simp add: convertString_def)
  from assms show ?thesis
    by (elim disjE;
        simp add: joiTypeSchema_def s convertString_plain convertNumber_plain convertBoolean_def)
qed

lemma joi_toggle:
  shows "toggledOff k opts opts' \<Longrightarrow> (\<forall>desc. d = Some desc \<longrightarrow> wrapsKept k opts depth desc) \<Longrightarrow>
           yields (withoutField k) (convertJoiDescription d opts depth)
             (convertJoiDescription d opts' depth)"
    and "toggledOff k opts opts' \<Longrightarrow> (\<forall>i \<in> set items. wrapsKept k opts depth i) \<Longrightarrow>
           yields (map (withoutField k)) (convertJoiDescriptions items opts depth)
             (convertJoiDescriptions items opts' depth)"
    and "toggledOff k opts opts' \<Longrightarrow>
           (\<forall>e \<in> set (orEmpty (desc_keys desc)). wrapsKept k opts (depth + 1) (snd e)) \<Longrightarrow>
           (case patternValue desc of None \<Rightarrow> True
            | Some valueDesc \<Rightarrow> wrapsKept k opts (depth + 1) valueDesc) \<Longrightarrow>
           yields (withoutField k) (convertObject desc opts depth) (convertObject desc opts' depth)"
    and "toggledOff k opts opts' \<Longrightarrow>
           (\<forall>e \<in> set entries. wrapsKept k opts (depth + 1) (snd e)) \<Longrightarrow>
           yields (\<lambda>r. (map (\<lambda>(p, n). (p, withoutField k n)) (fst r), snd r))
             (convertObject_fields entries opts depth acc)
             (convertObject_fields entries opts' depth
                (map (\<lambda>(p, n). (p, withoutField k n)) (fst acc), snd acc))"
    and "toggledOff k opts opts' \<Longrightarrow>
           (if length (orEmpty (desc_ordered desc')) > 0
            then \<forall>i \<in> set (orEmpty (desc_ordered desc')). wrapsKept k opts (depth + 1) i
            else \<forall>i \<in> set (orEmpty (desc_items desc')). wrapsKept k opts (depth + 1) i) \<Longrightarrow>
           yields (withoutField k) (convertArray desc' opts depth) (convertArray desc' opts' depth)"
    and "toggledOff k opts opts' \<Longrightarrow>
           (\<forall>m \<in> set (orEmpty (desc_matches desc'')).
              case match_schema m of None \<Rightarrow> True
              | Some schema \<Rightarrow> wrapsKept k opts (depth + 1) schema) \<Longrightarrow>
           yields (withoutField k) (convertAlternatives desc'' opts depth)
             (convertAlternatives desc'' opts' depth)"
    and "toggledOff k opts opts' \<Longrightarrow>
           (\<forall>m \<in> set matches.
              case match_schema m of None \<Rightarrow> True
              | Some schema \<Rightarrow> wrapsKept k opts (depth + 1) schema) \<Longrightarrow>
           yields (map (withoutField k)) (convertAlternatives_matches matches opts depth)
             (convertAlternatives_matches matches opts' depth)"
proof (induct d opts depth and items opts depth and desc opts depth and entries opts depth acc
         and desc' opts depth and desc'' opts depth and matches opts depth rule: joi_induct)
  case (1 d opts depth)
  note t = "1.prems"(1)
  note key = metadataKey [OF t]
  show ?case
  proof (cases "maxDepth opts < depth")
    case True
    with t show ?thesis by (simp add: convertJoiDescription.simps)
  next
    case False
    show ?thesis
    proof (cases d)
      case None
      with False t show ?thesis by (simp add: convertJoiDescription.simps)
    next
      case (Some desc)
      with "1.prems"(2) have wk: "wrapsKept k opts depth desc" by simp
      note m = joiMetadata_toggled [OF t, of desc]
      from False t have le: "depth \<le> maxDepth opts" "depth \<le> maxDepth opts'" by simp_all
      show ?thesis
      proof (cases "isJoiEnum desc")
        case True
        with False t show ?thesis
          unfolding Some by (simp add: convertJoiDescription.simps m joiEnum_withoutField [OF key])
      next
        case notEnum: False
        note ih = "1.hyps" [OF False Some notEnum]
        from wk False notEnum have
          wrap: "hasNullAllow desc \<and> \<not> flag_only (desc_flags desc) \<longrightarrow>
                   (case joiTypeSchema desc opts depth of
                      Inl e \<Rightarrow> True
                    | Inr typeSchema \<Rightarrow>
                        \<not> emptiedBy k (spread (joiMetadata desc opts) typeSchema))"
          and parts: "if desc_type desc = ''object'' then
             (\<forall>e \<in> set (orEmpty (desc_keys desc)). wrapsKept k opts (depth + 1) (snd e))
             \<and> (case patternValue desc of
                  None \<Rightarrow> True
                | Some valueDesc \<Rightarrow> wrapsKept k opts (depth + 1) valueDesc)
           else if desc_type desc = ''array'' then
             (if length (orEmpty (desc_ordered desc)) > 0
              then \<forall>i \<in> set (orEmpty (desc_ordered desc)). wrapsKept k opts (depth + 1) i
              else \<forall>i \<in> set (orEmpty (desc_items desc)). wrapsKept k opts (depth + 1) i)
           else if desc_type desc = ''alternatives'' then
             (\<forall>m \<in> set (orEmpty (desc_matches desc)).
                case match_schema m of
                  None \<Rightarrow> True
                | Some schema \<Rightarrow> wrapsKept k opts (depth + 1) schema)
           else True"
          by (simp_all add: wrapsKept.simps [of k opts depth desc])
        have ts: "yields (withoutField k) (joiTypeSchema desc opts depth)
                    (joiTypeSchema desc opts' depth)"
        proof -
          consider (obj) "desc_type desc = ''object''" | (arr) "desc_type desc = ''array''"
            | (alt) "desc_type desc = ''alternatives''"
            | (other) "desc_type desc \<noteq> ''object''" "desc_type desc \<noteq> ''array''"
                      "desc_type desc \<noteq> ''alternatives''"
            by blast
          then show ?thesis
          proof cases
            case obj
            with parts have
              p1: "\<forall>e \<in> set (orEmpty (desc_keys desc)). wrapsKept k opts (depth + 1) (snd e)"
              and p2: "case patternValue desc of None \<Rightarrow> True
                       | Some valueDesc \<Rightarrow> wrapsKept k opts (depth + 1) valueDesc"
              by simp_all
            from obj ih(1) [OF _ _ _ _ t p1 p2] show ?thesis by (simp add: joiTypeSchema_def)
          next
            case arr
            with parts have
              p: "if length (orEmpty (desc_ordered desc)) > 0
                  then \<forall>i \<in> set (orEmpty (desc_ordered desc)). wrapsKept k opts (depth + 1) i
                  else \<forall>i \<in> set (orEmpty (desc_items desc)). wrapsKept k opts (depth + 1) i"
              by simp
            from arr ih(2) [OF _ _ _ _ _ t p] show ?thesis by (simp add: joiTypeSchema_def)
          next
            case alt
            with parts have
              p: "\<forall>m \<in> set (orEmpty (desc_matches desc)).
                    case match_schema m of None \<Rightarrow> True
                    | Some schema \<Rightarrow> wrapsKept k opts (depth + 1) schema"
              by simp
            from alt ih(3) [OF _ _ _ _ _ _ t p] show ?thesis by (simp add: joiTypeSchema_def)
          next
            case other
            then show ?thesis by (rule joiTypeSchema_plain_kinds [OF key])
          qed
        qed
        show ?thesis
        proof (cases "joiTypeSchema desc opts depth")
          case (Inl e)
          then show ?thesis
            unfolding Some convertJoiDescription_combined [OF le(1) notEnum] by simp
        next
          case (Inr typeSchema)
          with ts have ts': "joiTypeSchema desc opts' depth = Inr (withoutField k typeSchema)"
            by simp
          from wrap Inr have
            "hasNullAllow desc \<and> \<not> flag_only (desc_flags desc) \<longrightarrow>
               \<not> emptiedBy k (spread (joiMetadata desc opts) typeSchema)" by simp
          from applyNullable_withoutField [OF key this] Inr ts' show ?thesis
            unfolding Some convertJoiDescription_combined [OF le(1) notEnum]
              convertJoiDescription_combined [OF le(2) notEnum] m
            by simp
        qed
      qed
    qed
  qed
next
  case (2 opts depth)
  show ?case by simp
next
  case (3 item items opts depth)
  note t = "3.prems"(1)
  from "3.prems"(2) have ni: "\<forall>desc. Some item = Some desc \<longrightarrow> wrapsKept k opts depth desc"
    and ns: "\<forall>i \<in> set items. wrapsKept k opts depth i" by simp_all
  note h = "3.hyps"(1) [OF t ni]
  show ?case
  proof (cases "convertJoiDescription (Some item) opts depth")
    case (Inl e)
    then show ?thesis by simp
  next
    case (Inr n)
    from "3.hyps"(2) [OF Inr t ns] h Inr show ?thesis
      by (cases "convertJoiDescriptions items opts depth") simp_all
  qed
next
  case (4 desc opts depth)
  note t = "4.prems"(1)
  note nk = "4.prems"(2)
  note np = "4.prems"(3)
  note key = metadataKey [OF t]
  have f: "yields (\<lambda>r. (map (\<lambda>(p, n). (p, withoutField k n)) (fst r), snd r))
             (convertObject_fields (orEmpty (desc_keys desc)) opts depth ([], []))
             (convertObject_fields (orEmpty (desc_keys desc)) opts' depth ([], []))"
    using "4.hyps"(1) [OF t nk] by simp
  show ?case
  proof (cases "convertObject_fields (orEmpty (desc_keys desc)) opts depth ([], [])")
    case (Inl e)
    then show ?thesis by (simp add: convertObject.simps)
  next
    case (Inr collected)
    show ?thesis
    proof (cases "patternValue desc")
      case None
      with f Inr show ?thesis
        by (simp add: convertObject.simps joiObjectResult_withoutField [OF key])
    next
      case (Some valueDesc)
      with np have "\<forall>desc. Some valueDesc = Some desc \<longrightarrow> wrapsKept k opts (depth + 1) desc"
        by simp
      from "4.hyps"(2) [OF Inr Some t this] f Inr Some key show ?thesis
        by (cases "convertJoiDescription (Some valueDesc) opts (depth + 1)")
           (auto simp: convertObject.simps joiObjectResult_withoutField)
    qed
  qed
next
  case (5 opts depth acc)
  show ?case by simp
next
  case (6 key fieldDesc entries opts depth acc)
  note t = "6.prems"(1)
  from "6.prems"(2) have
    nf: "\<forall>desc. Some fieldDesc = Some desc \<longrightarrow> wrapsKept k opts (depth + 1) desc"
    and ne: "\<forall>e \<in> set entries. wrapsKept k opts (depth + 1) (snd e)" by simp_all
  note c = "6.hyps"(1) [OF t nf]
  show ?case
  proof (cases "convertJoiDescription (Some fieldDesc) opts (depth + 1)")
    case (Inl e)
    then show ?thesis by simp
  next
    case (Inr converted)
    from "6.hyps"(2) [OF Inr t ne] c Inr show ?thesis
      by (cases "flag_presence (desc_flags fieldDesc) = Some ''required''")
         (simp_all add: map_assignProperty)
  qed
next
  case (7 desc opts depth)
  note t = "7.prems"(1)
  note np = "7.prems"(2)
  note key = metadataKey [OF t]
  note r = convertArray_rules_withoutField [OF key]
  show ?case
  proof (cases "0 < length (orEmpty (desc_ordered desc))")
    case True
    with np have no: "\<forall>i \<in> set (orEmpty (desc_ordered desc)). wrapsKept k opts (depth + 1) i"
      by simp
    from "7.hyps"(1) [OF True t no] True key show ?thesis
      by (cases "convertJoiDescriptions (orEmpty (desc_ordered desc)) opts (depth + 1)")
         (auto simp: convertArray.simps)
  next
    case noOrdered: False
    with np have ni: "\<forall>i \<in> set (orEmpty (desc_items desc)). wrapsKept k opts (depth + 1) i"
      by simp
    show ?thesis
    proof (cases "0 < length (orEmpty (desc_items desc))")
      case False
      with noOrdered key show ?thesis by (auto simp: convertArray.simps r)
    next
      case True
      show ?thesis
      proof (cases "length (orEmpty (desc_items desc)) = 1")
        case single: True
        from True ni have
          "\<forall>d. Some (hd (orEmpty (desc_items desc))) = Some d \<longrightarrow> wrapsKept k opts (depth + 1) d"
          by (cases "orEmpty (desc_items desc)") auto
        from "7.hyps"(2) [OF noOrdered True single t this] noOrdered True single key
        show ?thesis
          by (cases "convertJoiDescription (Some (hd (orEmpty (desc_items desc)))) opts (depth + 1)")
             (auto simp: convertArray.simps r)
      next
        case many: False
        from "7.hyps"(3) [OF noOrdered True many t ni] noOrdered True many key
        show ?thesis
          by (cases "convertJoiDescriptions (orEmpty (desc_items desc)) opts (depth + 1)")
             (auto simp: convertArray.simps r)
      qed
    qed
  qed
next
  case (8 desc opts depth)
  note t = "8.prems"(1)
  note nm = "8.prems"(2)
  note h = "8.hyps" [OF t nm]
  note key = metadataKey [OF t]
  show ?case
  proof (cases "convertAlternatives_matches (orEmpty (desc_matches desc)) opts depth")
    case (Inl e)
    then show ?thesis by (simp add: convertAlternatives.simps)
  next
    case (Inr schemas)
    with h key show ?thesis
      by (cases schemas) (auto simp: convertAlternatives.simps)
  qed
next
  case (9 opts depth)
  show ?case by simp
next
  case (10 m matches opts depth)
  note t = "10.prems"(1)
  from "10.prems"(2) have
    nm: "\<forall>m \<in> set matches. case match_schema m of None \<Rightarrow> True
                          | Some schema \<Rightarrow> wrapsKept k opts (depth + 1) schema"
    and n1: "case match_schema m of None \<Rightarrow> True
             | Some schema \<Rightarrow> wrapsKept k opts (depth + 1) schema"
    by simp_all
  show ?case
  proof (cases "match_schema m")
    case None
    with "10.hyps"(1) [OF None t nm] show ?thesis by simp
  next
    case (Some schema)
    with n1 have "\<forall>desc. Some schema = Some desc \<longrightarrow> wrapsKept k opts (depth + 1) desc" by simp
    note c = "10.hyps"(2) [OF Some t this]
    show ?thesis
    proof (cases "convertJoiDescription (Some schema) opts (depth + 1)")
      case (Inl e)
      with Some show ?thesis by simp
    next
      case (Inr n)
      from "10.hyps"(3) [OF Some Inr t nm] c Some Inr show ?thesis
        by (cases "convertAlternatives_matches matches opts depth") simp_all
    qed
  qed
qed

text \<open>
  C7, as the code has it. In Dialect A, for every input, options and depth at which the
  conversion returns a node: converting with \<open>includeDefaults: false\<close> returns exactly
  that node with every \<open>default\<close> field removed, and converting with
  \<open>includeDescriptions: false\<close> exactly that node with every \<open>description\<close> field
  removed. In Dialect B the same holds unless the conversion reaches, within the depth
  bound and not below an enum, a description allowing \<open>null\<close> whose \<open>combined\<close> node
  has fields and all of them are the field that the toggle removes: that node is wrapped
  in \<open>anyOf\<close> with the option on and is the empty node with the option off.
\<close>

theorem options_toggles:
  "(convertZodType s opts depth = Inr n \<longrightarrow>
      convertZodType s (opts\<lparr>includeDefaults := False\<rparr>) depth =
        Inr (withoutField ''default'' n)
      \<and> convertZodType s (opts\<lparr>includeDescriptions := False\<rparr>) depth =
        Inr (withoutField ''description'' n))
   \<and> (convertJoiDescription (Some desc) opts depth = Inr m \<longrightarrow>
        (wrapsKept ''default'' opts depth desc \<longrightarrow>
           convertJoiDescription (Some desc) (opts\<lparr>includeDefaults := False\<rparr>) depth =
             Inr (withoutField ''default'' m))
        \<and> (wrapsKept ''description'' opts depth desc \<longrightarrow>
           convertJoiDescription (Some desc) (opts\<lparr>includeDescriptions := False\<rparr>) depth =
             Inr (withoutField ''description'' m)))"
proof -
  have t1: "toggledOff ''default'' opts (opts\<lparr>includeDefaults := False\<rparr>)"
    and t2: "toggledOff ''description'' opts (opts\<lparr>includeDescriptions := False\<rparr>)"
    by (simp_all add: toggledOff_def)
  have z: "convertZodType s opts depth = Inr n \<longrightarrow>
      convertZodType s (opts\<lparr>includeDefaults := False\<rparr>) depth =
        Inr (withoutField ''default'' n)
      \<and> convertZodType s (opts\<lparr>includeDescriptions := False\<rparr>) depth =
        Inr (withoutField ''description'' n)"
    using zod_toggle(1) [OF t1, of s depth] zod_toggle(1) [OF t2, of s depth]
    by (cases "convertZodType s opts depth") simp_all
  have j1: "convertJoiDescription (Some desc) (opts\<lparr>includeDefaults := False\<rparr>) depth =
              Inr (withoutField ''default'' m)"
    if "convertJoiDescription (Some desc) opts depth = Inr m"
      and "wrapsKept ''default'' opts depth desc"
    using joi_toggle(1) [OF t1, of "Some desc" depth] that by simp
  have j2: "convertJoiDescription (Some desc) (opts\<lparr>includeDescriptions := False\<rparr>) depth =
              Inr (withoutField ''description'' m)"
    if "convertJoiDescription (Some desc) opts depth = Inr m"
      and "wrapsKept ''description'' opts depth desc"
    using joi_toggle(1) [OF t2, of "Some desc" depth] that by simp
  from z j1 j2 show ?thesis by blast
qed

theorem options_toggles_witness:
  "convertZodType (Some ex_account) defaultOpts 0 =
     Inr [(''description'', vstr ''account''), (''type'', vstr ''object''),
          (''properties'',
           VProps [(''name'', [(''description'', vstr ''login''), (''type'', vstr ''string'')]),
                   (''role'', [(''type'', vstr ''string''), (''default'', vstr ''user'')])]),
          (''required'', VLit (JArr [JStr ''name'']))]
   \<and> convertZodType (Some ex_account) (defaultOpts\<lparr>includeDefaults := False\<rparr>) 0 =
     Inr [(''description'', vstr ''account''), (''type'', vstr ''object''),
          (''properties'',
           VProps [(''name'', [(''description'', vstr ''login''), (''type'', vstr ''string'')]),
                   (''role'', [(''type'', vstr ''string'')])]),
          (''required'', VLit (JArr [JStr ''name'']))]
   \<and> convertZodType (Some ex_account) (defaultOpts\<lparr>includeDescriptions := False\<rparr>) 0 =
     Inr [(''type'', vstr ''object''),
          (''properties'',
           VProps [(''name'', [(''type'', vstr ''string'')]),
                   (''role'', [(''type'', vstr ''string''), (''default'', vstr ''user'')])]),
          (''required'', VLit (JArr [JStr ''name'']))]
   \<and> convertJoiDescription (Some ex_nullableEither) defaultOpts 0 =
     Inr [(''anyOf'',
           VNodes [[(''description'', vstr ''id''), (''default'', vstr ''none''),
                    (''anyOf'', VNodes [[(''type'', vstr ''string'')], [(''type'', vstr ''number'')]])],
                   [(''type'', vstr ''null'')]])]
   \<and> convertJoiDescription (Some ex_nullableEither) (defaultOpts\<lparr>includeDefaults := False\<rparr>) 0 =
     Inr [(''anyOf'',
           VNodes [[(''description'', vstr ''id''),
                    (''anyOf'', VNodes [[(''type'', vstr ''string'')], [(''type'', vstr ''number'')]])],
                   [(''type'', vstr ''null'')]])]
   \<and> convertJoiDescription (Some ex_nullableEither) (defaultOpts\<lparr>includeDescriptions := False\<rparr>) 0 =
     Inr [(''anyOf'',
           VNodes [[(''default'', vstr ''none''),
                    (''anyOf'', VNodes [[(''type'', vstr ''string'')], [(''type'', vstr ''number'')]])],
                   [(''type'', vstr ''null'')]])]"
proof -
  let ?n = "[(''description'', vstr ''account''), (''type'', vstr ''object''),
          (''properties'',
           VProps [(''name'', [(''description'', vstr ''login''), (''type'', vstr ''string'')]),
                   (''role'', [(''type'', vstr ''string''), (''default'', vstr ''user'')])]),
          (''required'', VLit (JArr [JStr ''name'']))]"
  let ?m = "[(''anyOf'',
           VNodes [[(''description'', vstr ''id''), (''default'', vstr ''none''),
                    (''anyOf'', VNodes [[(''type'', vstr ''string'')], [(''type'', vstr ''number'')]])],
                   [(''type'', vstr ''null'')]])]"
  have h1: "convertZodType (Some ex_account) defaultOpts 0 = Inr ?n"
    by (simp add: ex_account_def convertZodObject.simps zodObjectResult_def
          attachFieldDefault_def assignProperty_def unwrapZodOptional_def isZodOptional_def
          eval_zod)
  have h2: "convertJoiDescription (Some ex_nullableEither) defaultOpts 0 = Inr ?m"
    by (simp add: ex_nullableEither_def convertAlternatives.simps convertNumber_def eval_joi)
  have c: "joiTypeSchema ex_nullableEither defaultOpts 0 =
             Inr [(''anyOf'', VNodes [[(''type'', vstr ''string'')], [(''type'', vstr ''number'')]])]"
    by (simp add: joiTypeSchema_def ex_nullableEither_def convertAlternatives.simps
          convertNumber_def eval_joi)
  have sel: "\<not> isJoiEnum ex_nullableEither" "desc_type ex_nullableEither = ''alternatives''"
    "orEmpty (desc_matches ex_nullableEither) =
       [JoiMatch (Some (joiBare ''string'')), JoiMatch (Some (joiBare ''number''))]"
    "joiMetadata ex_nullableEither defaultOpts =
       [(''description'', vstr ''id''), (''default'', vstr ''none'')]"
    "maxDepth defaultOpts = 20"
    by (simp_all add: ex_nullableEither_def isJoiEnum_def noFlags_def orEmpty_def
          joiMetadata_def defaultOpts_def)
  have leaf: "wrapsKept k defaultOpts 1 (joiBare t)" for k t
    by (subst wrapsKept.simps)
       (simp add: joiBare_def noFlags_def defaultOpts_def hasNullAllow_def orEmpty_def
          patternValue_def isJoiEnum_def)
  have h3: "wrapsKept ''default'' defaultOpts 0 ex_nullableEither"
    by (subst wrapsKept.simps) (simp add: sel c leaf emptiedBy_def spread_def)
  have h4: "wrapsKept ''description'' defaultOpts 0 ex_nullableEither"
    by (subst wrapsKept.simps) (simp add: sel c leaf emptiedBy_def spread_def)
  from options_toggles [of "Some ex_account" defaultOpts 0 ?n ex_nullableEither ?m] h1 h2 h3 h4
  show ?thesis by simp
qed

text \<open>The claim as stated fails in Dialect B: a null-allowing \<open>any\<close> with a description is
  wrapped in \<open>anyOf\<close> when the description is included and is the empty node when it is
  not, so the two runs differ by more than the \<open>description\<close> field.\<close>

theorem options_toggles_counterexample:
  "convertJoiDescription (Some ex_nullableNote) defaultOpts 0 =
     Inr [(''anyOf'', VNodes [[(''description'', vstr ''note'')], [(''type'', vstr ''null'')]])]
   \<and> convertJoiDescription (Some ex_nullableNote) (defaultOpts\<lparr>includeDescriptions := False\<rparr>) 0 =
     Inr []
   \<and> withoutField ''description''
        [(''anyOf'', VNodes [[(''description'', vstr ''note'')], [(''type'', vstr ''null'')]])] =
     [(''anyOf'', VNodes [[], [(''type'', vstr ''null'')]])]"
  by (simp add: ex_nullableNote_def eval_joi)

text \<open>That description is one whose wrap the removal of \<open>description\<close> empties, and not
  one whose wrap the removal of \<open>default\<close> empties; a null-allowing \<open>any\<close> without
  metadata has no wrap to lose.\<close>

lemma wrapsKept_examples:
  "\<not> wrapsKept ''description'' defaultOpts 0 ex_nullableNote"
  "wrapsKept ''default'' defaultOpts 0 ex_nullableNote"
  "wrapsKept ''description'' defaultOpts 0 ex_nullableAny"
  "wrapsKept ''default'' defaultOpts 0 ex_nullableAny"
  by (subst wrapsKept.simps,
      simp add: ex_nullableNote_def ex_nullableAny_def joiTypeSchema_def emptiedBy_def
        joiMetadata_def noFlags_def defaultOpts_def spread_def hasNullAllow_def orEmpty_def
        isJoiEnum_def)+

text \<open>In Dialect A the first run has to return: the \<open>defaultValue\<close> function of a field is
  called only when defaults are included, so a function that throws makes the conversion
  with defaults raise, where the conversion without them returns a node.\<close>

lemma throwing_field_default:
  "convertZodType (Some ex_throwingDefault) defaultOpts 0 = Inl Thrown"
  "convertZodType (Some ex_throwingDefault) (defaultOpts\<lparr>includeDefaults := False\<rparr>) 0 =
     Inr [(''type'', vstr ''object''),
          (''properties'', VProps [(''role'', [(''type'', vstr ''string'')])])]"
  by (simp_all add: ex_throwingDefault_def convertZodObject.simps zodObjectResult_def
        attachFieldDefault_def assignProperty_def unwrapZodOptional_def isZodOptional_def
        eval_zod)

end
